theory Spec2Isabelle
  imports Complex_Main "HOL-Library.Sublist"
begin

section \<open>Python values used by the agent\<close>

text \<open>
  A Python \<open>str\<close> is a sequence of Unicode code points; it is modelled as a list of
  natural numbers, so \<open>len\<close> is \<open>length\<close> and the slice \<open>s[:n]\<close> is \<open>take n s\<close>.
  \<open>ord\<close> gives the code point of a character literal and \<open>str\<close> turns a literal
  into a Python string.
\<close>

type_synonym pystr = "nat list"

definition ord :: "char \<Rightarrow> nat" where
  "ord c = of_char c"

definition str :: "string \<Rightarrow> pystr" where
  "str s = map ord s"

text \<open>
  \<open>Py_UNICODE_ISSPACE\<close>: the characters removed by \<open>str.strip()\<close> and matched by
  \<open>\s\<close> in a \<open>str\<close> pattern.
\<close>

definition isspace :: "nat \<Rightarrow> bool" where
  "isspace c \<longleftrightarrow>
     (9 \<le> c \<and> c \<le> 13) \<or> (28 \<le> c \<and> c \<le> 32) \<or> c = 133 \<or> c = 160 \<or> c = 5760 \<or>
     (8192 \<le> c \<and> c \<le> 8202) \<or> c = 8232 \<or> c = 8233 \<or> c = 8239 \<or> c = 8287 \<or> c = 12288"

definition strip :: "pystr \<Rightarrow> pystr" where
  "strip s = rev (dropWhile isspace (rev (dropWhile isspace s)))"

definition startswith :: "pystr \<Rightarrow> pystr \<Rightarrow> bool" where
  "startswith s p \<longleftrightarrow> take (length p) s = p"

fun join :: "pystr \<Rightarrow> pystr list \<Rightarrow> pystr" where
  "join sep [] = []"
| "join sep [x] = x"
| "join sep (x # y # ys) = x @ sep @ join sep (y # ys)"

text \<open>
  The exceptions that occur in the modelled code. A function that may raise returns
  \<open>exn + 'a\<close>, with \<open>Inl\<close> for the exception. \<open>OutOfFuel\<close> is no exception
  of Python: it marks a scan that was cut off by the bound on its number of steps (see
  \<open>scan_once\<close>), which no call of \<open>json.loads\<close> is.
\<close>

datatype exn =
    JSONDecodeError
  | RecursionError
  | ValueError
  | KeyError pystr
  | SDKError pystr
  | OutOfFuel

text \<open>
  Two limits of the interpreter that \<open>json.loads\<close> meets. \<open>recursion_limit\<close> is
  the number of containers, one inside the other, that the scanner may enter when
  \<open>json.loads\<close> is called: what \<open>sys.getrecursionlimit()\<close> leaves above the frames
  already on the stack. \<open>int_max_str_digits\<close> is \<open>sys.get_int_max_str_digits()\<close>,
  the longest digit string that \<open>int\<close> converts, \<open>0\<close> for no limit. CPython 3.11
  starts with 1000 and 4300.
\<close>

record interpreter =
  recursion_limit :: nat
  int_max_str_digits :: nat

definition cpython :: interpreter where
  "cpython = \<lparr>recursion_limit = 1000, int_max_str_digits = 4300\<rparr>"

text \<open>
  A \<open>dict\<close> with string keys keeps its keys in insertion order; assigning to a key
  that exists replaces the value where it stands.
\<close>

type_synonym 'v pydict = "(pystr \<times> 'v) list"

fun dict_set :: "'v pydict \<Rightarrow> pystr \<Rightarrow> 'v \<Rightarrow> 'v pydict" where
  "dict_set [] k v = [(k, v)]"
| "dict_set ((k', v') # d) k v = (if k' = k then (k, v) # d else (k', v') # dict_set d k v)"

definition dict_get :: "'v pydict \<Rightarrow> pystr \<Rightarrow> 'v option" where
  "dict_get d k = map_of d k"

definition dict_has :: "pystr \<Rightarrow> 'v pydict \<Rightarrow> bool" where
  "dict_has k d \<longleftrightarrow> dict_get d k \<noteq> None"

definition dict_of_pairs :: "(pystr \<times> 'v) list \<Rightarrow> 'v pydict" where
  "dict_of_pairs ps = foldl (\<lambda>d (k, v). dict_set d k v) [] ps"

text \<open>The \<open>dict\<close> without a key, as after \<open>del d[key]\<close>.\<close>

definition dict_without :: "'v pydict \<Rightarrow> pystr \<Rightarrow> 'v pydict" where
  "dict_without d key = filter (\<lambda>(k, v). k \<noteq> key) d"

text \<open>
  The values \<open>json.loads\<close> builds. A number with a fraction or an exponent becomes a
  \<open>float\<close>: \<open>JFloat q\<close> carries the exact value \<open>q\<close> of the literal, which CPython
  rounds to the nearest double. The agent never computes with it; it only tests its
  truth value, and the nearest double is \<open>0.0\<close> exactly when \<open>\<bar>q\<bar> \<le> 2\<^sup>-\<^sup>1\<^sup>0\<^sup>7\<^sup>5\<close>.
\<close>

datatype json =
    JNull
  | JBool bool
  | JInt int
  | JFloat rat
  | JNaN
  | JInfinity bool
  | JStr pystr
  | JArr "json list"
  | JObj "(pystr \<times> json) list"

fun truthy :: "json \<Rightarrow> bool" where
  "truthy JNull = False"
| "truthy (JBool b) = b"
| "truthy (JInt i) = (i \<noteq> 0)"
| "truthy (JFloat q) = (\<not> \<bar>q\<bar> \<le> 1 / 2 ^ 1075)"
| "truthy JNaN = True"
| "truthy (JInfinity negative) = True"
| "truthy (JStr s) = (s \<noteq> [])"
| "truthy (JArr xs) = (xs \<noteq> [])"
| "truthy (JObj d) = (d \<noteq> [])"

section \<open>\<open>json.loads\<close>\<close>

text \<open>
  The decoder of the standard library, in its default configuration (strict, no hooks),
  as the scanner of \<open>json.decoder\<close> and \<open>json.scanner\<close> reads a text: the functions
  take the text from the current index on and return the value with the text that
  follows it. Every \<open>StopIteration\<close> of the scanner is turned into a
  \<open>JSONDecodeError\<close> by its caller, so the model raises that at once.
\<close>

definition json_ws :: "nat \<Rightarrow> bool" where
  "json_ws c \<longleftrightarrow> c = ord CHR '' '' \<or> c = 9 \<or> c = 10 \<or> c = 13"

definition skip_ws :: "pystr \<Rightarrow> pystr" where
  "skip_ws s = dropWhile json_ws s"

definition is_digit :: "nat \<Rightarrow> bool" where
  "is_digit c \<longleftrightarrow> ord CHR ''0'' \<le> c \<and> c \<le> ord CHR ''9''"

definition hex_value :: "nat \<Rightarrow> nat option" where
  "hex_value c =
     (if ord CHR ''0'' \<le> c \<and> c \<le> ord CHR ''9'' then Some (c - ord CHR ''0'')
      else if ord CHR ''a'' \<le> c \<and> c \<le> ord CHR ''f'' then Some (c - ord CHR ''a'' + 10)
      else if ord CHR ''A'' \<le> c \<and> c \<le> ord CHR ''F'' then Some (c - ord CHR ''A'' + 10)
      else None)"

text \<open>\<open>_decode_uXXXX\<close>: the four hexadecimal digits after \<open>\u\<close>.\<close>

fun decode_uXXXX :: "pystr \<Rightarrow> nat option" where
  "decode_uXXXX (a # b # c # d # s) =
     (case (hex_value a, hex_value b, hex_value c, hex_value d) of
        (Some h3, Some h2, Some h1, Some h0) \<Rightarrow> Some (((h3 * 16 + h2) * 16 + h1) * 16 + h0)
      | _ \<Rightarrow> None)"
| "decode_uXXXX s = None"

definition BACKSLASH :: "nat \<Rightarrow> nat option" where
  "BACKSLASH e =
     (if e = ord CHR ''\"'' then Some (ord CHR ''\"'')
      else if e = ord CHR 0x5C then Some (ord CHR 0x5C)
      else if e = ord CHR ''/'' then Some (ord CHR ''/'')
      else if e = ord CHR ''b'' then Some 8
      else if e = ord CHR ''f'' then Some 12
      else if e = ord CHR ''n'' then Some 10
      else if e = ord CHR ''r'' then Some 13
      else if e = ord CHR ''t'' then Some 9
      else None)"

text \<open>
  \<open>scanstring\<close> in strict mode, from the character after the opening quote: the
  decoded string and the text after the closing quote, or \<open>None\<close> for a
  \<open>JSONDecodeError\<close> (unterminated string, control character, invalid escape).
\<close>

function scanstring :: "pystr \<Rightarrow> (pystr \<times> pystr) option" where
  "scanstring [] = None"
| "scanstring (c # s) =
     (if c = ord CHR ''\"'' then Some ([], s)
      else if c = ord CHR 0x5C then
        (case s of
           [] \<Rightarrow> None
         | e # s1 \<Rightarrow>
             if e \<noteq> ord CHR ''u'' then
               (case BACKSLASH e of
                  None \<Rightarrow> None
                | Some ch \<Rightarrow> map_option (\<lambda>(x, r). (ch # x, r)) (scanstring s1))
             else
               (case decode_uXXXX s1 of
                  None \<Rightarrow> None
                | Some uni \<Rightarrow>
                    let s2 = drop 4 s1 in
                    if 0xd800 \<le> uni \<and> uni \<le> 0xdbff \<and> startswith s2 [ord CHR 0x5C, ord CHR ''u''] then
                      (case decode_uXXXX (drop 2 s2) of
                         None \<Rightarrow> None
                       | Some uni2 \<Rightarrow>
                           if 0xdc00 \<le> uni2 \<and> uni2 \<le> 0xdfff then
                             map_option
                               (\<lambda>(x, r). ((0x10000 + ((uni - 0xd800) * 1024 + (uni2 - 0xdc00))) # x, r))
                               (scanstring (drop 6 s2))
                           else map_option (\<lambda>(x, r). (uni # x, r)) (scanstring s2))
                    else map_option (\<lambda>(x, r). (uni # x, r)) (scanstring s2)))
      else if c < 32 then None
      else map_option (\<lambda>(x, r). (c # x, r)) (scanstring s))"
  by pat_completeness auto
termination
  by (relation "measure length") auto

text \<open>
  \<open>NUMBER_RE\<close>, \<open>(-?(?:0|[1-9]\d*))(\.\d+)?([eE][-+]?\d+)?\<close>, matched at the start of
  the text, with the digits \<open>0\<close> to \<open>9\<close> of the accelerated scanner. Each group
  returns the characters it matched and the text after them; an optional group that
  does not match consumes nothing.
\<close>

definition digits_value :: "pystr \<Rightarrow> nat" where
  "digits_value ds = foldl (\<lambda>a c. 10 * a + (c - ord CHR ''0'')) 0 ds"

definition match_integer :: "pystr \<Rightarrow> (bool \<times> pystr \<times> pystr) option" where
  "match_integer s =
     (let negative = startswith s [ord CHR ''-''];
          s1 = (if negative then drop 1 s else s)
      in case s1 of
           [] \<Rightarrow> None
         | d # t \<Rightarrow>
             if d = ord CHR ''0'' then Some (negative, [d], t)
             else if is_digit d then Some (negative, d # takeWhile is_digit t, dropWhile is_digit t)
             else None)"

definition match_frac :: "pystr \<Rightarrow> (pystr \<times> pystr) option" where
  "match_frac s =
     (case s of
        [] \<Rightarrow> None
      | p # t \<Rightarrow>
          if p = ord CHR ''.'' \<and> takeWhile is_digit t \<noteq> []
          then Some (takeWhile is_digit t, dropWhile is_digit t)
          else None)"

definition match_exp :: "pystr \<Rightarrow> (bool \<times> pystr \<times> pystr) option" where
  "match_exp s =
     (case s of
        [] \<Rightarrow> None
      | e # t \<Rightarrow>
          if e = ord CHR ''e'' \<or> e = ord CHR ''E'' then
            (let signed = (startswith t [ord CHR ''+''] \<or> startswith t [ord CHR ''-'']);
                 t1 = (if signed then drop 1 t else t)
             in if takeWhile is_digit t1 = [] then None
                else Some (startswith t [ord CHR ''-''], takeWhile is_digit t1, dropWhile is_digit t1))
          else None)"

text \<open>
  The number the scanner builds from the groups: \<open>int(integer)\<close> when there is
  neither fraction nor exponent, \<open>float(integer + frac + exp)\<close> otherwise.
\<close>

definition float_value :: "bool \<Rightarrow> pystr \<Rightarrow> pystr \<Rightarrow> (bool \<times> pystr) option \<Rightarrow> rat" where
  "float_value negative integer fraction exponent =
     (let mantissa = of_nat (digits_value integer) + of_nat (digits_value fraction) / 10 ^ length fraction;
          scaled =
            (case exponent of
               None \<Rightarrow> mantissa
             | Some (exp_negative, ds) \<Rightarrow>
                 if exp_negative then mantissa / 10 ^ digits_value ds
                 else mantissa * 10 ^ digits_value ds)
      in if negative then - scaled else scaled)"

text \<open>
  \<open>int(integer)\<close>, as \<open>PyLong_FromString\<close> does it for the scanner: more digits than
  the limit is a \<open>ValueError\<close>.
\<close>

definition py_int :: "interpreter \<Rightarrow> bool \<Rightarrow> pystr \<Rightarrow> exn + json" where
  "py_int py negative integer =
     (if 0 < int_max_str_digits py \<and> int_max_str_digits py < length integer then Inl ValueError
      else Inr (JInt (if negative then - int (digits_value integer)
                     else int (digits_value integer))))"

text \<open>
  The match of a number: \<open>None\<close> when the text starts with no number, else the number
  with the text after it, or the exception of the conversion.
\<close>

definition match_number :: "interpreter \<Rightarrow> pystr \<Rightarrow> (exn + json \<times> pystr) option" where
  "match_number py s =
     (case match_integer s of
        None \<Rightarrow> None
      | Some (negative, integer, s1) \<Rightarrow>
          (case match_frac s1 of
             None \<Rightarrow>
               (case match_exp s1 of
                  None \<Rightarrow>
                    Some (case py_int py negative integer of
                            Inl e \<Rightarrow> Inl e
                          | Inr v \<Rightarrow> Inr (v, s1))
                | Some (exp_negative, ds, s2) \<Rightarrow>
                    Some (Inr (JFloat (float_value negative integer [] (Some (exp_negative, ds))), s2)))
           | Some (fraction, s2) \<Rightarrow>
               (case match_exp s2 of
                  None \<Rightarrow> Some (Inr (JFloat (float_value negative integer fraction None), s2))
                | Some (exp_negative, ds, s3) \<Rightarrow>
                    Some (Inr (JFloat (float_value negative integer fraction (Some (exp_negative, ds))),
                               s3)))))"

text \<open>
  \<open>scan_once\<close> with the bodies of \<open>JSONObject\<close> and \<open>JSONArray\<close>, as the accelerated
  scanner runs them. The loops of the latter two are recursive calls,
  \<open>JSONObject py n depth pairs s\<close> standing after the opening quote of a key with the
  pairs read so far, \<open>JSONArray py n depth vals s\<close> standing before a value.
  \<open>depth\<close> is the number of containers that may still be entered: the scanner enters
  a recursive call at each \<open>{\<close> and each \<open>[\<close>, and with none left that is a
  \<open>RecursionError\<close>. The argument \<open>n\<close> is no limit of the interpreter: it bounds the
  number of steps so that the definition is a recursion on it, and a scan that reaches
  the bound is \<open>OutOfFuel\<close>. Skipping at most one, or one and then more, white-space
  characters, as the source does to save calls, is \<open>skip_ws\<close> throughout.
\<close>

fun scan_once :: "interpreter \<Rightarrow> nat \<Rightarrow> nat \<Rightarrow> pystr \<Rightarrow> exn + json \<times> pystr"
  and JSONObject ::
    "interpreter \<Rightarrow> nat \<Rightarrow> nat \<Rightarrow> (pystr \<times> json) list \<Rightarrow> pystr \<Rightarrow> exn + json \<times> pystr"
  and JSONArray :: "interpreter \<Rightarrow> nat \<Rightarrow> nat \<Rightarrow> json list \<Rightarrow> pystr \<Rightarrow> exn + json \<times> pystr"
where
  "scan_once py 0 depth s = Inl OutOfFuel"
| "scan_once py (Suc n) depth s =
     (case s of
        [] \<Rightarrow> Inl JSONDecodeError
      | nextchar # t \<Rightarrow>
          if nextchar = ord CHR ''\"'' then
            (case scanstring t of
               None \<Rightarrow> Inl JSONDecodeError
             | Some (x, r) \<Rightarrow> Inr (JStr x, r))
          else if nextchar = ord CHR ''{'' then
            (case depth of
               0 \<Rightarrow> Inl RecursionError
             | Suc d \<Rightarrow>
                 (case skip_ws t of
                    [] \<Rightarrow> Inl JSONDecodeError
                  | c # r \<Rightarrow>
                      if c = ord CHR ''}'' then Inr (JObj [], r)
                      else if c = ord CHR ''\"'' then JSONObject py n d [] r
                      else Inl JSONDecodeError))
          else if nextchar = ord CHR ''['' then
            (case depth of
               0 \<Rightarrow> Inl RecursionError
             | Suc d \<Rightarrow>
                 if startswith (skip_ws t) [ord CHR '']''] then Inr (JArr [], drop 1 (skip_ws t))
                 else JSONArray py n d [] (skip_ws t))
          else if startswith s (str ''null'') then Inr (JNull, drop 4 s)
          else if startswith s (str ''true'') then Inr (JBool True, drop 4 s)
          else if startswith s (str ''false'') then Inr (JBool False, drop 5 s)
          else
            (case match_number py s of
               Some m \<Rightarrow> m
             | None \<Rightarrow>
                 if startswith s (str ''NaN'') then Inr (JNaN, drop 3 s)
                 else if startswith s (str ''Infinity'') then Inr (JInfinity False, drop 8 s)
                 else if startswith s (str ''-Infinity'') then Inr (JInfinity True, drop 9 s)
                 else Inl JSONDecodeError))"
| "JSONObject py 0 depth pairs s = Inl OutOfFuel"
| "JSONObject py (Suc n) depth pairs s =
     (case scanstring s of
        None \<Rightarrow> Inl JSONDecodeError
      | Some (key, r) \<Rightarrow>
          (case skip_ws r of
             [] \<Rightarrow> Inl JSONDecodeError
           | c # r1 \<Rightarrow>
               if c \<noteq> ord CHR '':'' then Inl JSONDecodeError
               else
                 (case scan_once py n depth (skip_ws r1) of
                    Inl e \<Rightarrow> Inl e
                  | Inr (v, r2) \<Rightarrow>
                      (case skip_ws r2 of
                         [] \<Rightarrow> Inl JSONDecodeError
                       | c2 # r3 \<Rightarrow>
                           if c2 = ord CHR ''}'' then Inr (JObj (dict_of_pairs (pairs @ [(key, v)])), r3)
                           else if c2 \<noteq> ord CHR '','' then Inl JSONDecodeError
                           else
                             (case skip_ws r3 of
                                [] \<Rightarrow> Inl JSONDecodeError
                              | c3 # r4 \<Rightarrow>
                                  if c3 = ord CHR ''\"'' then JSONObject py n depth (pairs @ [(key, v)]) r4
                                  else Inl JSONDecodeError)))))"
| "JSONArray py 0 depth vals s = Inl OutOfFuel"
| "JSONArray py (Suc n) depth vals s =
     (case scan_once py n depth s of
        Inl e \<Rightarrow> Inl e
      | Inr (v, r) \<Rightarrow>
          (case skip_ws r of
             [] \<Rightarrow> Inl JSONDecodeError
           | c # r1 \<Rightarrow>
               if c = ord CHR '']'' then Inr (JArr (vals @ [v]), r1)
               else if c \<noteq> ord CHR '','' then Inl JSONDecodeError
               else JSONArray py n depth (vals @ [v]) (skip_ws r1)))"

text \<open>
  \<open>json.loads\<close> for a \<open>str\<close>: no byte order mark, one value between white space,
  nothing after it. The scan starts with the depth the interpreter allows, and with a
  bound on its steps that it does not reach (lemma \<open>json_loads_fuel\<close> below).
\<close>

definition json_loads :: "interpreter \<Rightarrow> pystr \<Rightarrow> exn + json" where
  "json_loads py s =
     (if startswith s [0xfeff] then Inl JSONDecodeError
      else
        (case scan_once py (2 * length s + 2) (recursion_limit py) (skip_ws s) of
           Inl e \<Rightarrow> Inl e
         | Inr (obj, r) \<Rightarrow> if skip_ws r \<noteq> [] then Inl JSONDecodeError else Inr obj))"

section \<open>The two regular expressions of the decoder\<close>

text \<open>
  A pattern is matched by backtracking. A matcher maps the text at the current position
  to the texts that remain after each way of matching, in the order in which the
  backtracking engine of \<open>re\<close> tries them; the match that \<open>re\<close> reports is the first
  way for which the whole pattern succeeds.
\<close>

type_synonym matcher = "pystr \<Rightarrow> pystr list"

definition re_lit :: "pystr \<Rightarrow> matcher" where
  "re_lit p s = (if startswith s p then [drop (length p) s] else [])"

definition re_seq :: "matcher \<Rightarrow> matcher \<Rightarrow> matcher" where
  "re_seq m1 m2 s = concat (map m2 (m1 s))"

text \<open>\<open>(?:m)?\<close>, greedy: with \<open>m\<close> first, then without.\<close>

definition re_opt :: "matcher \<Rightarrow> matcher" where
  "re_opt m s = m s @ [s]"

text \<open>\<open>[class]*\<close>, greedy: the longest run first, giving back one character at a time.\<close>

fun re_star :: "(nat \<Rightarrow> bool) \<Rightarrow> matcher" where
  "re_star P [] = [[]]"
| "re_star P (c # s) = (if P c then re_star P s @ [c # s] else [c # s])"

text \<open>\<open>[class]*?\<close>, lazy: nothing first, then one character more at a time.\<close>

fun re_star_lazy :: "(nat \<Rightarrow> bool) \<Rightarrow> matcher" where
  "re_star_lazy P [] = [[]]"
| "re_star_lazy P (c # s) = (c # s) # (if P c then re_star_lazy P s else [])"

text \<open>
  \<open>```(?:json)?\s*(\{.*?\})\s*```\<close> with \<open>re.DOTALL\<close>, in three parts: before the
  group, the group, after the group. \<open>match_fenced\<close> is a match at the start of the
  text: the text of group 1 and the text after the match.
\<close>

definition fenced_open :: matcher where
  "fenced_open = re_seq (re_lit (str ''```'')) (re_seq (re_opt (re_lit (str ''json''))) (re_star isspace))"

definition fenced_group :: matcher where
  "fenced_group = re_seq (re_lit (str ''{'')) (re_seq (re_star_lazy (\<lambda>c. True)) (re_lit (str ''}'')))"

definition fenced_close :: matcher where
  "fenced_close = re_seq (re_star isspace) (re_lit (str ''```''))"

definition fenced_matches :: "pystr \<Rightarrow> (pystr \<times> pystr) list" where
  "fenced_matches s =
     concat (map (\<lambda>r1. concat (map (\<lambda>r2. map (\<lambda>r3. (take (length r1 - length r2) r1, r3))
                                              (fenced_close r2))
                                   (fenced_group r1)))
                  (fenced_open s))"

definition match_fenced :: "pystr \<Rightarrow> (pystr \<times> pystr) option" where
  "match_fenced s = (case fenced_matches s of [] \<Rightarrow> None | m # _ \<Rightarrow> Some m)"

text \<open>A match consumes at least one character, so the search of \<open>findall\<close> ends.\<close>

lemma re_lit_shorter: "r \<in> set (re_lit p s) \<Longrightarrow> length r + length p = length s"
proof -
  assume "r \<in> set (re_lit p s)"
  then have t: "take (length p) s = p" and r: "r = drop (length p) s"
    by (auto simp: re_lit_def startswith_def split: if_splits)
  from t have "length (take (length p) s) = length p" by simp
  then have "length p \<le> length s" by simp
  with r show ?thesis by simp
qed

lemma re_star_shorter: "r \<in> set (re_star P s) \<Longrightarrow> length r \<le> length s"
  by (induction s) (auto split: if_splits)

lemma re_star_lazy_shorter: "r \<in> set (re_star_lazy P s) \<Longrightarrow> length r \<le> length s"
  by (induction s) (auto split: if_splits)

lemma re_seq_elim: "r \<in> set (re_seq m1 m2 s) \<Longrightarrow> \<exists>r1 \<in> set (m1 s). r \<in> set (m2 r1)"
  by (auto simp: re_seq_def)

lemma re_opt_shorter:
  "r \<in> set (re_opt m s) \<Longrightarrow> (\<And>r'. r' \<in> set (m s) \<Longrightarrow> length r' \<le> length s) \<Longrightarrow> length r \<le> length s"
  by (auto simp: re_opt_def)

lemma fenced_open_shorter:
  assumes "r \<in> set (fenced_open s)"
  shows "length r < length s"
proof -
  from assms obtain r1 where r1: "r1 \<in> set (re_lit (str ''```'') s)"
    and "r \<in> set (re_seq (re_opt (re_lit (str ''json''))) (re_star isspace) r1)"
    unfolding fenced_open_def by (blast dest: re_seq_elim)
  then obtain r2 where r2: "r2 \<in> set (re_opt (re_lit (str ''json'')) r1)"
    and r: "r \<in> set (re_star isspace r2)"
    by (blast dest: re_seq_elim)
  from r1 have "length r1 < length s"
    by (auto dest!: re_lit_shorter simp: str_def)
  moreover from r2 have "length r2 \<le> length r1"
    by (rule re_opt_shorter) (auto dest!: re_lit_shorter)
  moreover from r have "length r \<le> length r2"
    by (rule re_star_shorter)
  ultimately show ?thesis by simp
qed

lemma fenced_group_shorter:
  assumes "r \<in> set (fenced_group s)"
  shows "length r < length s"
proof -
  from assms obtain r1 where r1: "r1 \<in> set (re_lit (str ''{'') s)"
    and "r \<in> set (re_seq (re_star_lazy (\<lambda>c. True)) (re_lit (str ''}'')) r1)"
    unfolding fenced_group_def by (blast dest: re_seq_elim)
  then obtain r2 where r2: "r2 \<in> set (re_star_lazy (\<lambda>c. True) r1)"
    and r: "r \<in> set (re_lit (str ''}'') r2)"
    by (blast dest: re_seq_elim)
  from r1 have "length r1 < length s"
    by (auto dest!: re_lit_shorter simp: str_def)
  moreover from r2 have "length r2 \<le> length r1"
    by (rule re_star_lazy_shorter)
  moreover from r have "length r \<le> length r2"
    by (auto dest!: re_lit_shorter)
  ultimately show ?thesis by simp
qed

lemma fenced_close_shorter:
  assumes "r \<in> set (fenced_close s)"
  shows "length r < length s"
proof -
  from assms obtain r1 where r1: "r1 \<in> set (re_star isspace s)"
    and r: "r \<in> set (re_lit (str ''```'') r1)"
    unfolding fenced_close_def by (blast dest: re_seq_elim)
  from r1 have "length r1 \<le> length s"
    by (rule re_star_shorter)
  moreover from r have "length r < length r1"
    by (auto dest!: re_lit_shorter simp: str_def)
  ultimately show ?thesis by simp
qed

lemma match_fenced_shorter:
  assumes "match_fenced s = Some (g, r)"
  shows "length r < length s"
proof -
  from assms have "(g, r) \<in> set (fenced_matches s)"
    by (auto simp: match_fenced_def split: list.splits)
  then obtain r1 r2 where "r1 \<in> set (fenced_open s)" "r2 \<in> set (fenced_group r1)"
    "r \<in> set (fenced_close r2)"
    by (auto simp: fenced_matches_def)
  then have "length r1 < length s" "length r2 < length r1" "length r < length r2"
    by (auto dest: fenced_open_shorter fenced_group_shorter fenced_close_shorter)
  then show ?thesis by simp
qed

text \<open>
  \<open>re.findall\<close> with this pattern: the matches from left to right, each search starting
  where the last match ended, and the text of group 1 for each. The pattern matches no
  empty text, so there is no match at the end of the text.
\<close>

function findall_fenced :: "pystr \<Rightarrow> pystr list" where
  "findall_fenced [] = []"
| "findall_fenced (c # s) =
     (case match_fenced (c # s) of
        Some (g, r) \<Rightarrow> g # findall_fenced r
      | None \<Rightarrow> findall_fenced s)"
  by pat_completeness auto
termination
  by (relation "measure length") (auto dest: match_fenced_shorter)

text \<open>
  \<open>\{[^{}]*"conversationMessage"[^{}]*\}\<close>, and \<open>re.search\<close>: the text of the first
  match, at the leftmost position that has one.
\<close>

definition not_brace :: "nat \<Rightarrow> bool" where
  "not_brace c \<longleftrightarrow> c \<noteq> ord CHR ''{'' \<and> c \<noteq> ord CHR ''}''"

definition inline_object :: matcher where
  "inline_object =
     re_seq (re_lit (str ''{''))
       (re_seq (re_star not_brace)
          (re_seq (re_lit (str ''\"conversationMessage\"''))
             (re_seq (re_star not_brace) (re_lit (str ''}'')))))"

fun re_search :: "matcher \<Rightarrow> pystr \<Rightarrow> pystr option" where
  "re_search m [] = (case m [] of [] \<Rightarrow> None | r # _ \<Rightarrow> Some [])"
| "re_search m (c # s) =
     (case m (c # s) of
        [] \<Rightarrow> re_search m s
      | r # _ \<Rightarrow> Some (take (length (c # s) - length r) (c # s)))"

section \<open>The agent\<close>

text \<open>
  The context of a request is a \<open>dict\<close> in which each of the five keys may be missing;
  an entry of the conversation history is a \<open>dict\<close> read with \<open>get\<close>. The agent keeps
  its session identifier, the instructions it loaded, and the flag \<open>_connected\<close>.
\<close>

record message =
  role :: "pystr option"
  content :: "pystr option"

record "context" =
  documentContent :: "pystr option"
  referredText :: "pystr option"
  referredAddress :: "pystr option"
  conversationHistory :: "message list option"
  systemInstructions :: "pystr option"

record agent =
  session_id :: pystr
  system_instructions :: pystr
  connected :: bool

subsection \<open>\<open>_parse_response\<close>\<close>

text \<open>
  The function computes its result from the response text alone: the context is not
  read, and the \<open>print\<close> calls, which write to the log, are left out.
\<close>

text \<open>\<open>not json_response\<close>, for a variable that is \<open>None\<close> or holds a decoded value.\<close>

fun falsy :: "json option \<Rightarrow> bool" where
  "falsy None = True"
| "falsy (Some v) = (\<not> truthy v)"

text \<open>
  \<open>try: json_response = json.loads(text)\<close> with \<open>except json.JSONDecodeError\<close>: the
  handler leaves the variable as it was; any other exception leaves the function.
\<close>

definition try_loads :: "interpreter \<Rightarrow> json option \<Rightarrow> pystr \<Rightarrow> exn + json option" where
  "try_loads py json_response text =
     (case json_loads py text of
        Inr v \<Rightarrow> Inr (Some v)
      | Inl e \<Rightarrow> if e = JSONDecodeError then Inr json_response else Inl e)"

text \<open>Strategy 2: the first fenced block that decodes ends the loop.\<close>

fun strategy2 :: "interpreter \<Rightarrow> json option \<Rightarrow> pystr list \<Rightarrow> exn + json option" where
  "strategy2 py json_response [] = Inr json_response"
| "strategy2 py json_response (block # json_blocks) =
     (case json_loads py block of
        Inr v \<Rightarrow> Inr (Some v)
      | Inl e \<Rightarrow> if e = JSONDecodeError then strategy2 py json_response json_blocks else Inl e)"

definition strategy3 :: "interpreter \<Rightarrow> json option \<Rightarrow> pystr \<Rightarrow> exn + json option" where
  "strategy3 py json_response response_text =
     (case re_search inline_object response_text of
        None \<Rightarrow> Inr json_response
      | Some json_match \<Rightarrow> try_loads py json_response json_match)"

text \<open>The value of \<open>json_response\<close> after the three strategies.\<close>

definition extract_json :: "interpreter \<Rightarrow> pystr \<Rightarrow> exn + json option" where
  "extract_json py response_text =
     (case try_loads py None (strip response_text) of
        Inl e \<Rightarrow> Inl e
      | Inr j1 \<Rightarrow>
          (case (if falsy j1 then strategy2 py j1 (findall_fenced response_text) else Inr j1) of
             Inl e \<Rightarrow> Inl e
           | Inr j2 \<Rightarrow> if falsy j2 then strategy3 py j2 response_text else Inr j2))"

text \<open>
  \<open>json_response and isinstance(json_response, dict)\<close>: the \<open>dict\<close> the result is
  built from, if there is one.
\<close>

fun decoded_dict :: "json option \<Rightarrow> json pydict option" where
  "decoded_dict None = None"
| "decoded_dict (Some v) = (if truthy v then (case v of JObj d \<Rightarrow> Some d | _ \<Rightarrow> None) else None)"

text \<open>
  \<open>key in json_response and json_response[key]\<close>: the value under the key when the test
  holds.
\<close>

definition truthy_item :: "json pydict \<Rightarrow> pystr \<Rightarrow> json option" where
  "truthy_item json_response key =
     (case dict_get json_response key of
        Some v \<Rightarrow> if truthy v then Some v else None
      | None \<Rightarrow> None)"

text \<open>The result built from the \<open>dict\<close>, and the fallback.\<close>

definition project :: "json pydict \<Rightarrow> json pydict" where
  "project json_response =
     (let result =
            [(str ''conversationMessage'',
              case dict_get json_response (str ''conversationMessage'') of
                Some v \<Rightarrow> v
              | None \<Rightarrow> JStr [])];
          result =
            (case truthy_item json_response (str ''documentUpdate'') of
               Some v \<Rightarrow> dict_set result (str ''documentUpdate'') v
             | None \<Rightarrow> result)
      in case truthy_item json_response (str ''updateRange'') of
           Some v \<Rightarrow> dict_set result (str ''updateRange'') v
         | None \<Rightarrow> result)"

definition fallback :: "pystr \<Rightarrow> json pydict" where
  "fallback response_text =
     [(str ''conversationMessage'',
       JStr (if strip response_text \<noteq> [] then strip response_text
             else str ''I encountered an error processing your request.''))]"

definition parse_response :: "interpreter \<Rightarrow> pystr \<Rightarrow> context \<Rightarrow> exn + json pydict" where
  "parse_response py response_text ctx =
     (case extract_json py response_text of
        Inl e \<Rightarrow> Inl e
      | Inr json_response \<Rightarrow>
          (case decoded_dict json_response of
             Some d \<Rightarrow> Inr (project d)
           | None \<Rightarrow> Inr (fallback response_text)))"

subsection \<open>\<open>_format_prompt_with_context\<close>\<close>

text \<open>\<open>str(n)\<close> for a length, as an f-string prints it.\<close>

fun str_of_nat :: "nat \<Rightarrow> pystr" where
  "str_of_nat n =
     (if n < 10 then [ord CHR ''0'' + n]
      else str_of_nat (n div 10) @ [ord CHR ''0'' + n mod 10])"

declare str_of_nat.simps [simp del]

text \<open>\<open>context[key]\<close> raises \<open>KeyError\<close> when the key is missing.\<close>

definition getitem :: "pystr \<Rightarrow> 'a option \<Rightarrow> exn + 'a" where
  "getitem key field = (case field of None \<Rightarrow> Inl (KeyError key) | Some v \<Rightarrow> Inr v)"

text \<open>One line of the history, for the entry with index \<open>i\<close> of \<open>enumerate\<close>.\<close>

definition history_line :: "nat \<Rightarrow> message \<Rightarrow> pystr" where
  "history_line i msg =
     (let msg_role = (case role msg of Some r \<Rightarrow> r | None \<Rightarrow> str ''unknown'');
          msg_content = (case content msg of Some c \<Rightarrow> c | None \<Rightarrow> [])
      in str ''['' @ str_of_nat (i + 1) @ str ''] '' @ msg_role @ str '': '' @
         take 100 msg_content @ (if length msg_content > 100 then str ''...'' else []))"

fun history_lines :: "nat \<Rightarrow> message list \<Rightarrow> pystr list" where
  "history_lines i [] = []"
| "history_lines i (msg # msgs) = history_line i msg # history_lines (Suc i) msgs"

definition format_prompt_with_context :: "pystr \<Rightarrow> context \<Rightarrow> exn + pystr" where
  "format_prompt_with_context prompt ctx =
     (case getitem (str ''systemInstructions'') (systemInstructions ctx) of
        Inl e \<Rightarrow> Inl e
      | Inr instructions \<Rightarrow>
     (case getitem (str ''documentContent'') (documentContent ctx) of
        Inl e \<Rightarrow> Inl e
      | Inr document \<Rightarrow>
     (case getitem (str ''referredAddress'') (referredAddress ctx) of
        Inl e \<Rightarrow> Inl e
      | Inr address \<Rightarrow>
     (case getitem (str ''referredText'') (referredText ctx) of
        Inl e \<Rightarrow> Inl e
      | Inr referred \<Rightarrow>
     (case getitem (str ''conversationHistory'') (conversationHistory ctx) of
        Inl e \<Rightarrow> Inl e
      | Inr history \<Rightarrow>
          Inr (join [10]
            ([str ''=== SYSTEM INSTRUCTIONS ==='', instructions, []] @
             [str ''=== DOCUMENT CONTENT ===''] @
             (if document \<noteq> []
              then [str ''Full Document ('' @ str_of_nat (length document) @ str '' chars):'', document]
              else [str ''(No document content)'']) @
             [[]] @
             [str ''=== REFERRED TEXT ==='', str ''Referred Address: '' @ address] @
             (if referred \<noteq> []
              then [str ''Referred Text ('' @ str_of_nat (length referred) @ str '' chars):'', referred]
              else [str ''(No referred text)'']) @
             [[]] @
             [str ''=== CONVERSATION HISTORY ===''] @
             (if history \<noteq> [] then history_lines 0 history
              else [str ''(No previous conversation)'']) @
             [[]] @
             [str ''=== USER REQUEST ==='', prompt, []] @
             [str ''=== YOUR RESPONSE ==='',
              str ''Respond with valid JSON only (no markdown, no code blocks):'',
              str ''{\"conversationMessage\": \"...\", \"documentUpdate\": \"...\", \"updateRange\": \"...\"}''])))))))"

subsection \<open>\<open>process\<close>\<close>

text \<open>
  The caller passes a reference to its \<open>dict\<close>, or \<open>None\<close>. The store holds the
  \<open>dict\<close> objects; a reference is an index into it, and \<open>context = {}\<close> allocates a
  new object. \<open>setdefault\<close> writes into the object the reference points to.
\<close>

type_synonym store = "context list"

definition empty_context :: "context" where
  "empty_context =
     \<lparr>documentContent = None, referredText = None, referredAddress = None,
      conversationHistory = None, systemInstructions = None\<rparr>"

definition setdefault :: "'a option \<Rightarrow> 'a \<Rightarrow> 'a option" where
  "setdefault field d = (case field of None \<Rightarrow> Some d | Some v \<Rightarrow> Some v)"

definition ensure_defaults :: "agent \<Rightarrow> context \<Rightarrow> context" where
  "ensure_defaults self ctx =
     ctx\<lparr>documentContent := setdefault (documentContent ctx) [],
         referredText := setdefault (referredText ctx) [],
         referredAddress := setdefault (referredAddress ctx) (str ''0:0''),
         conversationHistory := setdefault (conversationHistory ctx) [],
         systemInstructions := setdefault (systemInstructions ctx) (system_instructions self)\<rparr>"

text \<open>Lines 125 to 133: the reference that \<open>context\<close> holds afterwards, and the store.\<close>

definition process_context :: "agent \<Rightarrow> store \<Rightarrow> nat option \<Rightarrow> nat \<times> store" where
  "process_context self \<sigma> ctx =
     (let (ref, \<sigma>1) = (case ctx of None \<Rightarrow> (length \<sigma>, \<sigma> @ [empty_context]) | Some r \<Rightarrow> (r, \<sigma>))
      in (ref, \<sigma>1[ref := ensure_defaults self (\<sigma>1 ! ref)]))"


text \<open>
  The SDK client is outside the code: what its calls do during one request is given.
  \<open>connect\<close> and \<open>query\<close> return or raise; \<open>receive_response\<close> yields messages and
  then stops or raises. A block of an assistant message has a \<open>text\<close> attribute or
  not. The callback \<open>on_chunk\<close>, when there is one, returns or raises.
\<close>

datatype block = TextBlock pystr | OtherBlock

datatype sdk_message = AssistantMessage "block list" | OtherMessage

record client =
  connect_raises :: "exn option"
  query_raises :: "pystr \<Rightarrow> exn option"
  received :: "sdk_message list"
  receive_raises :: "exn option"

fun collect_blocks :: "(pystr \<Rightarrow> exn option) option \<Rightarrow> pystr list \<Rightarrow> block list \<Rightarrow> exn + pystr list" where
  "collect_blocks on_chunk response_text [] = Inr response_text"
| "collect_blocks on_chunk response_text (TextBlock chunk_text # blocks) =
     (case on_chunk of
        None \<Rightarrow> collect_blocks on_chunk (response_text @ [chunk_text]) blocks
      | Some f \<Rightarrow>
          (case f chunk_text of
             Some e \<Rightarrow> Inl e
           | None \<Rightarrow> collect_blocks on_chunk (response_text @ [chunk_text]) blocks))"
| "collect_blocks on_chunk response_text (OtherBlock # blocks) =
     collect_blocks on_chunk response_text blocks"

fun collect_messages :: "(pystr \<Rightarrow> exn option) option \<Rightarrow> pystr list \<Rightarrow> sdk_message list \<Rightarrow> exn + pystr list" where
  "collect_messages on_chunk response_text [] = Inr response_text"
| "collect_messages on_chunk response_text (AssistantMessage blocks # messages) =
     (case collect_blocks on_chunk response_text blocks of
        Inl e \<Rightarrow> Inl e
      | Inr response_text' \<Rightarrow> collect_messages on_chunk response_text' messages)"
| "collect_messages on_chunk response_text (OtherMessage # messages) =
     collect_messages on_chunk response_text messages"

text \<open>
  \<open>process\<close> returns the agent, the store, and the result or the exception it raises;
  the handler of its \<open>try\<close> raises the exception again.
\<close>

definition process ::
  "interpreter \<Rightarrow> client \<Rightarrow> agent \<Rightarrow> store \<Rightarrow> pystr \<Rightarrow> nat option \<Rightarrow>
   (pystr \<Rightarrow> exn option) option \<Rightarrow> agent \<times> store \<times> (exn + json pydict)" where
  "process py sdk self \<sigma> prompt ctx on_chunk =
     (let (ref, \<sigma>') = process_context self \<sigma> ctx
      in case format_prompt_with_context prompt (\<sigma>' ! ref) of
           Inl e \<Rightarrow> (self, \<sigma>', Inl e)
         | Inr full_prompt \<Rightarrow>
             (case (if \<not> connected self
                    then (case connect_raises sdk of
                            Some e \<Rightarrow> Inl e
                          | None \<Rightarrow> Inr (self\<lparr>connected := True\<rparr>))
                    else Inr self) of
                Inl e \<Rightarrow> (self, \<sigma>', Inl e)
              | Inr self' \<Rightarrow>
                  (case query_raises sdk full_prompt of
                     Some e \<Rightarrow> (self', \<sigma>', Inl e)
                   | None \<Rightarrow>
                       (case collect_messages on_chunk [] (received sdk) of
                          Inl e \<Rightarrow> (self', \<sigma>', Inl e)
                        | Inr response_text \<Rightarrow>
                            (case receive_raises sdk of
                               Some e \<Rightarrow> (self', \<sigma>', Inl e)
                             | None \<Rightarrow>
                                 (self', \<sigma>',
                                  parse_response py (join [10] response_text) (\<sigma>' ! ref)))))))"

subsection \<open>\<open>cleanup\<close>\<close>

text \<open>
  \<open>disconnect\<close> is what \<open>self.client.disconnect()\<close> does in this call: \<open>None\<close> when
  it returns, \<open>Some e\<close> when it raises the exception \<open>e\<close>, which the handler catches.
\<close>

definition cleanup :: "exn option \<Rightarrow> agent \<Rightarrow> exn + agent" where
  "cleanup disconnect self =
     (if connected self then
        (case disconnect of
           None \<Rightarrow> Inr (self\<lparr>connected := False\<rparr>)
         | Some e \<Rightarrow> Inr self)
      else Inr self)"

subsection \<open>\<open>json.dumps\<close>\<close>

text \<open>
  Modelled from the spec: the repository has no serializer. \<open>serialize\<close> of the
  round-trip property is taken to be \<open>json.dumps\<close> of the standard library with its
  default separators, for a \<open>dict\<close> whose values are strings; its flag
  \<open>ensure_ascii\<close>, \<open>True\<close> by default, is a parameter. \<open>ESCAPE_DCT\<close> holds the
  escapes of \<open>json.encoder\<close>, \<open>hex4 n\<close> is \<open>'{0:04x}'.format(n)\<close>, and a character
  outside the Basic Multilingual Plane is written as a surrogate pair when
  \<open>ensure_ascii\<close> is set.
\<close>

definition hex_digit :: "nat \<Rightarrow> nat" where
  "hex_digit d = (if d < 10 then ord CHR ''0'' + d else ord CHR ''a'' + (d - 10))"

definition hex4 :: "nat \<Rightarrow> pystr" where
  "hex4 n =
     [hex_digit (n div 4096 mod 16), hex_digit (n div 256 mod 16), hex_digit (n div 16 mod 16),
      hex_digit (n mod 16)]"

definition u_escape :: "nat \<Rightarrow> pystr" where
  "u_escape n = [ord CHR 0x5C, ord CHR ''u''] @ hex4 n"

definition ESCAPE_DCT :: "nat \<Rightarrow> pystr option" where
  "ESCAPE_DCT c =
     (if c = ord CHR 0x5C then Some [ord CHR 0x5C, ord CHR 0x5C]
      else if c = ord CHR ''\"'' then Some [ord CHR 0x5C, ord CHR ''\"'']
      else if c = 8 then Some [ord CHR 0x5C, ord CHR ''b'']
      else if c = 12 then Some [ord CHR 0x5C, ord CHR ''f'']
      else if c = 10 then Some [ord CHR 0x5C, ord CHR ''n'']
      else if c = 13 then Some [ord CHR 0x5C, ord CHR ''r'']
      else if c = 9 then Some [ord CHR 0x5C, ord CHR ''t'']
      else if c < 32 then Some (u_escape c)
      else None)"

definition encode_char :: "bool \<Rightarrow> nat \<Rightarrow> pystr" where
  "encode_char ensure_ascii c =
     (case ESCAPE_DCT c of
        Some e \<Rightarrow> e
      | None \<Rightarrow>
          if ensure_ascii \<and> \<not> (32 \<le> c \<and> c \<le> 126) then
            (if c < 0x10000 then u_escape c
             else u_escape (0xd800 + (c - 0x10000) div 1024 mod 1024) @
                  u_escape (0xdc00 + (c - 0x10000) mod 1024))
          else [c])"

definition encode_basestring :: "bool \<Rightarrow> pystr \<Rightarrow> pystr" where
  "encode_basestring ensure_ascii s =
     [ord CHR ''\"''] @ concat (map (encode_char ensure_ascii) s) @ [ord CHR ''\"'']"

fun dumps_items :: "bool \<Rightarrow> (pystr \<times> pystr) list \<Rightarrow> pystr" where
  "dumps_items ensure_ascii [] = []"
| "dumps_items ensure_ascii [(k, v)] =
     encode_basestring ensure_ascii k @ str '': '' @ encode_basestring ensure_ascii v"
| "dumps_items ensure_ascii ((k, v) # item # items) =
     encode_basestring ensure_ascii k @ str '': '' @ encode_basestring ensure_ascii v @ str '', '' @
     dumps_items ensure_ascii (item # items)"

definition json_dumps :: "bool \<Rightarrow> (pystr \<times> pystr) list \<Rightarrow> pystr" where
  "json_dumps ensure_ascii d = str ''{'' @ dumps_items ensure_ascii d @ str ''}''"

text \<open>
  A Unicode scalar value is a code point that is no surrogate. A Python string may hold
  surrogates; text that was decoded from UTF-8 does not.
\<close>

definition scalar_value :: "nat \<Rightarrow> bool" where
  "scalar_value c \<longleftrightarrow> c < 0x110000 \<and> \<not> (0xd800 \<le> c \<and> c \<le> 0xdfff)"

definition well_formed :: "bool \<Rightarrow> pystr \<Rightarrow> bool" where
  "well_formed ensure_ascii s \<longleftrightarrow> (ensure_ascii \<longrightarrow> (\<forall>c \<in> set s. scalar_value c))"

section \<open>The size of a text, against the limits\<close>

text \<open>
  The number of characters of a text that satisfy a predicate; the opening brackets of
  a text, at each of which the scanner enters a container; and its digits.
\<close>

definition count_chars :: "(nat \<Rightarrow> bool) \<Rightarrow> pystr \<Rightarrow> nat" where
  "count_chars P s = length (filter P s)"






section \<open>Evaluating the decoder on a given text\<close>

text \<open>
  The equations of the scanner are used where the text is known to start with a
  character, so that they unfold along a given text only.
\<close>

declare scan_once.simps [simp del] JSONObject.simps [simp del] JSONArray.simps [simp del]

lemmas scan_once_cons = scan_once.simps(2) [of _ _ _ "c # t" for c t]
lemmas JSONObject_cons = JSONObject.simps(2) [of _ _ _ _ "c # t" for c t]
lemmas JSONArray_cons = JSONArray.simps(2) [of _ _ _ _ "c # t" for c t]
lemmas scan_once_numeral = scan_once_cons [of _ "pred_numeral k" for k, folded numeral_eq_Suc]
lemmas JSONObject_numeral = JSONObject_cons [of _ "pred_numeral k" for k, folded numeral_eq_Suc]
lemmas JSONArray_numeral = JSONArray_cons [of _ "pred_numeral k" for k, folded numeral_eq_Suc]

lemmas decoder_eval =
  scan_once_cons JSONObject_cons JSONArray_cons scan_once_numeral JSONObject_numeral
  JSONArray_numeral scan_once.simps(1) JSONObject.simps(1) JSONArray.simps(1)
  json_loads_def str_def ord_def skip_ws_def json_ws_def startswith_def strip_def isspace_def
  match_number_def match_integer_def match_frac_def match_exp_def is_digit_def digits_value_def
  py_int_def cpython_def
  float_value_def BACKSLASH_def hex_value_def dict_get_def dict_has_def dict_of_pairs_def
  parse_response_def extract_json_def try_loads_def strategy3_def fallback_def project_def
  truthy_item_def
  inline_object_def re_seq_def re_lit_def re_opt_def not_brace_def match_fenced_def
  fenced_matches_def fenced_open_def fenced_group_def fenced_close_def

section \<open>Properties of \<open>json.loads\<close>\<close>





lemma dropWhile_shorter: "length (dropWhile P s) \<le> length s"
  by (rule length_dropWhile_le)











text \<open>
  What follows a value is a part of the text: it has no more characters of any kind.
\<close>

lemma count_append: "count_chars P (a @ b) = count_chars P a + count_chars P b"
  by (simp add: count_chars_def)

lemma count_drop: "count_chars P (drop k s) \<le> count_chars P s"
  using count_append [of P "take k s" "drop k s"] by simp


lemma count_dropWhile: "count_chars P (dropWhile Q s) \<le> count_chars P s"
  by (simp add: dropWhile_eq_drop count_drop)

lemma count_Cons: "count_chars P s \<le> count_chars P (c # s)"
  by (simp add: count_chars_def)


lemma count_skip_ws: "count_chars P (skip_ws s) \<le> count_chars P s"
  by (simp add: skip_ws_def count_dropWhile)

lemma count_skip_ws_Cons: "skip_ws s = c # r \<Longrightarrow> count_chars P r \<le> count_chars P s"
  using count_skip_ws [of P s] count_Cons [of P r c] by simp

lemma count_skip_wsD:
  "count_chars P r \<le> count_chars P (skip_ws s) \<Longrightarrow> count_chars P r \<le> count_chars P s"
  using count_skip_ws [of P s] by simp









































section \<open>The texts that \<open>_parse_response\<close> decodes\<close>












section \<open>Properties of \<open>_parse_response\<close>\<close>








lemma keys_distinct:
  "str ''conversationMessage'' \<noteq> str ''documentUpdate''"
  "str ''conversationMessage'' \<noteq> str ''updateRange''"
  "str ''documentUpdate'' \<noteq> str ''updateRange''"
  by (simp_all add: str_def ord_def)



lemma parse_response_cases:
  "extract_json py response_text = Inr j \<Longrightarrow>
   parse_response py response_text ctx =
     Inr (case decoded_dict j of Some d \<Rightarrow> project d | None \<Rightarrow> fallback response_text)"
  by (auto simp: parse_response_def split: option.splits)













text \<open>What the result holds under each key.\<close>

lemma dict_get_project_conversationMessage:
  "dict_get (project d) (str ''conversationMessage'') =
     Some (case dict_get d (str ''conversationMessage'') of Some v \<Rightarrow> v | None \<Rightarrow> JStr [])"
  using keys_distinct
  by (auto simp: project_def dict_get_def Let_def split: option.splits)

lemma dict_get_project_documentUpdate:
  "dict_get (project d) (str ''documentUpdate'') = truthy_item d (str ''documentUpdate'')"
  using keys_distinct
  by (auto simp: project_def dict_get_def Let_def split: option.splits)

lemma dict_get_project_updateRange:
  "dict_get (project d) (str ''updateRange'') = truthy_item d (str ''updateRange'')"
  using keys_distinct
  by (auto simp: project_def dict_get_def Let_def split: option.splits)

lemma dict_get_fallback:
  "dict_get (fallback t) (str ''documentUpdate'') = None"
  "dict_get (fallback t) (str ''updateRange'') = None"
  using keys_distinct by (auto simp: fallback_def dict_get_def)

lemma extract_json_first:
  assumes "json_loads py (strip response_text) = Inr v" and "truthy v"
  shows "extract_json py response_text = Inr (Some v)"
  using assms by (simp add: extract_json_def try_loads_def)

lemma dict_get_dict_without:
  "dict_get (dict_without d key) k = (if k = key then None else dict_get d k)"
  by (induction d) (auto simp: dict_without_def dict_get_def)

lemma dict_has_project:
  "dict_has (str ''documentUpdate'') (project d) \<longleftrightarrow>
     (\<exists>v. dict_get d (str ''documentUpdate'') = Some v \<and> truthy v)"
  "dict_has (str ''updateRange'') (project d) \<longleftrightarrow>
     (\<exists>v. dict_get d (str ''updateRange'') = Some v \<and> truthy v)"
  by (auto simp: dict_has_def dict_get_project_documentUpdate dict_get_project_updateRange
      truthy_item_def split: option.splits if_splits)

lemma project_without_empty:
  "dict_get d (str ''documentUpdate'') = Some (JStr []) \<Longrightarrow>
     project (dict_without d (str ''documentUpdate'')) = project d"
  "dict_get d (str ''updateRange'') = Some (JStr []) \<Longrightarrow>
     project (dict_without d (str ''updateRange'')) = project d"
  using keys_distinct keys_distinct [symmetric]
  by (simp_all add: project_def truthy_item_def dict_get_dict_without)

text \<open>
  Claim C2, as stated, fails: when the decoded object carries \<open>updateRange\<close> and no
  \<open>documentUpdate\<close>, the result has \<open>updateRange\<close> and no \<open>documentUpdate\<close>.
\<close>

theorem updateRange_alone_counterexample:
  "parse_response cpython (str ''{\"conversationMessage\":\"x\",\"updateRange\":\"0:5\"}'') empty_context =
     Inr [(str ''conversationMessage'', JStr (str ''x'')), (str ''updateRange'', JStr (str ''0:5''))] \<and>
   dict_has (str ''updateRange'')
     [(str ''conversationMessage'', JStr (str ''x'')), (str ''updateRange'', JStr (str ''0:5''))] \<and>
   \<not> dict_has (str ''documentUpdate'')
     [(str ''conversationMessage'', JStr (str ''x'')), (str ''updateRange'', JStr (str ''0:5''))]"
  by (simp add: decoder_eval)

text \<open>
  Claim C2, amended. For every response text the result has \<open>updateRange\<close> exactly
  when the decoded object has the key with a value that is true, and then with that
  value; \<open>documentUpdate\<close> plays no part in it.
\<close>

theorem updateRange_of_object:
  assumes "extract_json py response_text = Inr json_response"
  shows "\<exists>result. parse_response py response_text ctx = Inr result \<and>
     dict_get result (str ''updateRange'') =
       (case decoded_dict json_response of
          Some d \<Rightarrow> truthy_item d (str ''updateRange'')
        | None \<Rightarrow> None)"
  unfolding parse_response_cases [OF assms]
  by (simp add: dict_get_project_updateRange dict_get_fallback split: option.splits)

theorem updateRange_of_object_witness:
  "extract_json cpython (str ''{\"conversationMessage\":\"x\",\"updateRange\":\"0:5\"}'') =
     Inr (Some (JObj [(str ''conversationMessage'', JStr (str ''x'')), (str ''updateRange'', JStr (str ''0:5''))])) \<and>
   (\<exists>result. parse_response cpython (str ''{\"conversationMessage\":\"x\",\"updateRange\":\"0:5\"}'') empty_context = Inr result \<and>
     dict_get result (str ''updateRange'') = Some (JStr (str ''0:5'')))"
proof -
  have e: "extract_json cpython (str ''{\"conversationMessage\":\"x\",\"updateRange\":\"0:5\"}'') =
     Inr (Some (JObj [(str ''conversationMessage'', JStr (str ''x'')), (str ''updateRange'', JStr (str ''0:5''))]))"
    by (simp add: decoder_eval)
  from updateRange_of_object [OF e, of empty_context] e show ?thesis
    by (simp add: decoder_eval)
qed

text \<open>
  Claim C3, as stated, fails for the empty object: \<open>{}\<close> decodes to an empty
  \<open>dict\<close>, which is false, so the result is the fallback and its
  \<open>conversationMessage\<close> is the text \<open>{}\<close>, not the empty string.
\<close>

theorem conversationMessage_empty_object_counterexample:
  "json_loads cpython (strip (str ''{}'')) = Inr (JObj []) \<and>
   dict_get [] (str ''conversationMessage'') = (None :: json option) \<and>
   parse_response cpython (str ''{}'') empty_context = Inr [(str ''conversationMessage'', JStr (str ''{}''))] \<and>
   str ''{}'' \<noteq> []"
  by (simp add: decoder_eval)

text \<open>
  Claim C3, amended. For every response text whose stripped content decodes to an object
  that is not empty, the \<open>conversationMessage\<close> of the result is the value the object
  has under that key, and the empty string when the object has no such key.
\<close>

theorem conversationMessage_of_object:
  assumes "json_loads py (strip response_text) = Inr (JObj d)" and "d \<noteq> []"
  shows "\<exists>result. parse_response py response_text ctx = Inr result \<and>
     dict_get result (str ''conversationMessage'') =
       Some (case dict_get d (str ''conversationMessage'') of Some v \<Rightarrow> v | None \<Rightarrow> JStr [])"
proof -
  from assms have "extract_json py response_text = Inr (Some (JObj d))"
    by (intro extract_json_first) simp_all
  from parse_response_cases [OF this] assms(2) show ?thesis
    by (simp add: dict_get_project_conversationMessage)
qed

theorem conversationMessage_of_object_witness:
  "json_loads cpython (strip (str ''{\"documentUpdate\":\"new\"}'')) = Inr (JObj [(str ''documentUpdate'', JStr (str ''new''))]) \<and>
   [(str ''documentUpdate'', JStr (str ''new''))] \<noteq> [] \<and>
   (\<exists>result. parse_response cpython (str ''{\"documentUpdate\":\"new\"}'') empty_context = Inr result \<and>
      dict_get result (str ''conversationMessage'') = Some (JStr []))"
proof -
  have l: "json_loads cpython (strip (str ''{\"documentUpdate\":\"new\"}'')) = Inr (JObj [(str ''documentUpdate'', JStr (str ''new''))])"
    by (simp add: decoder_eval)
  have n: "[(str ''documentUpdate'', JStr (str ''new''))] \<noteq> []" by simp
  from conversationMessage_of_object [OF l n, of empty_context] l show ?thesis
    by (simp add: decoder_eval)
qed

text \<open>
  Claim C4, as stated, fails in two ways. An object that holds nothing but an empty
  \<open>documentUpdate\<close> is not decoded as the object without the key: the first gives an
  empty \<open>conversationMessage\<close>, the second is the empty object, which is false, and
  gives the fallback. And the value need not be a string: a list that is not empty is
  true and is put into the result.
\<close>

theorem empty_update_counterexample:
  "parse_response cpython (str ''{\"documentUpdate\":\"\"}'') empty_context =
     Inr [(str ''conversationMessage'', JStr [])] \<and>
   parse_response cpython (str ''{}'') empty_context =
     Inr [(str ''conversationMessage'', JStr (str ''{}''))] \<and>
   str ''{}'' \<noteq> [] \<and>
   parse_response cpython (str ''{\"conversationMessage\":\"ok\",\"documentUpdate\":[1]}'') empty_context =
     Inr [(str ''conversationMessage'', JStr (str ''ok'')), (str ''documentUpdate'', JArr [JInt 1])]"
  by (simp add: decoder_eval)

text \<open>
  Claim C4, amended. For every decoded object from which the result is built, the result
  has \<open>documentUpdate\<close> exactly when the object has the key with a value that is true,
  and the same for \<open>updateRange\<close>; a string is true exactly when it is not empty; and
  when the value under one of the two keys is the empty string, every response text
  whose decoded object is this one without the key, and is one the result is built from,
  has the same result.
\<close>

theorem empty_update_as_omitted:
  assumes "extract_json py response_text = Inr json_response"
    and "decoded_dict json_response = Some d"
  shows "\<exists>result. parse_response py response_text ctx = Inr result \<and>
     (dict_has (str ''documentUpdate'') result \<longleftrightarrow>
        (\<exists>v. dict_get d (str ''documentUpdate'') = Some v \<and> truthy v)) \<and>
     (dict_has (str ''updateRange'') result \<longleftrightarrow>
        (\<exists>v. dict_get d (str ''updateRange'') = Some v \<and> truthy v)) \<and>
     (\<forall>s. truthy (JStr s) \<longleftrightarrow> s \<noteq> []) \<and>
     (\<forall>key omitted json_omitted.
        (key = str ''documentUpdate'' \<or> key = str ''updateRange'') \<and>
        dict_get d key = Some (JStr []) \<and>
        extract_json py omitted = Inr json_omitted \<and>
        decoded_dict json_omitted = Some (dict_without d key) \<longrightarrow>
        parse_response py omitted ctx = Inr result)"
proof -
  have r: "parse_response py response_text ctx = Inr (project d)"
    using parse_response_cases [OF assms(1)] assms(2) by simp
  have "parse_response py omitted ctx = Inr (project d)"
    if "key = str ''documentUpdate'' \<or> key = str ''updateRange''"
      and "dict_get d key = Some (JStr [])"
      and "extract_json py omitted = Inr json_omitted"
      and "decoded_dict json_omitted = Some (dict_without d key)"
    for key omitted json_omitted
    using parse_response_cases [OF that(3)] that(1,2,4) project_without_empty [of d]
    by auto
  with r show ?thesis
    by (simp add: dict_has_project) blast
qed

theorem empty_update_as_omitted_witness:
  "extract_json cpython (str ''{\"conversationMessage\":\"ok\",\"documentUpdate\":\"\"}'') =
     Inr (Some (JObj [(str ''conversationMessage'', JStr (str ''ok'')), (str ''documentUpdate'', JStr [])])) \<and>
   decoded_dict (Some (JObj [(str ''conversationMessage'', JStr (str ''ok'')), (str ''documentUpdate'', JStr [])])) =
     Some [(str ''conversationMessage'', JStr (str ''ok'')), (str ''documentUpdate'', JStr [])] \<and>
   (\<exists>result. parse_response cpython (str ''{\"conversationMessage\":\"ok\",\"documentUpdate\":\"\"}'') empty_context = Inr result \<and>
      \<not> dict_has (str ''documentUpdate'') result \<and>
      parse_response cpython (str ''{\"conversationMessage\":\"ok\"}'') empty_context = Inr result)"
proof -
  let ?d = "[(str ''conversationMessage'', JStr (str ''ok'')), (str ''documentUpdate'', JStr [])]"
  let ?o = "[(str ''conversationMessage'', JStr (str ''ok''))]"
  have e: "extract_json cpython (str ''{\"conversationMessage\":\"ok\",\"documentUpdate\":\"\"}'') = Inr (Some (JObj ?d))"
    by (simp add: decoder_eval)
  have d: "decoded_dict (Some (JObj ?d)) = Some ?d" by simp
  have o: "extract_json cpython (str ''{\"conversationMessage\":\"ok\"}'') = Inr (Some (JObj ?o))"
    by (simp add: decoder_eval)
  have w: "decoded_dict (Some (JObj ?o)) = Some (dict_without ?d (str ''documentUpdate''))"
    by (simp add: dict_without_def str_def ord_def)
  have g: "dict_get ?d (str ''documentUpdate'') = Some (JStr [])"
    by (simp add: dict_get_def str_def ord_def)
  from empty_update_as_omitted [OF e d, of empty_context] obtain result where
    all: "parse_response cpython (str ''{\"conversationMessage\":\"ok\",\"documentUpdate\":\"\"}'') empty_context = Inr result \<and>
     (dict_has (str ''documentUpdate'') result \<longleftrightarrow>
        (\<exists>v. dict_get ?d (str ''documentUpdate'') = Some v \<and> truthy v)) \<and>
     (dict_has (str ''updateRange'') result \<longleftrightarrow>
        (\<exists>v. dict_get ?d (str ''updateRange'') = Some v \<and> truthy v)) \<and>
     (\<forall>s. truthy (JStr s) \<longleftrightarrow> s \<noteq> []) \<and>
     (\<forall>key omitted json_omitted.
        (key = str ''documentUpdate'' \<or> key = str ''updateRange'') \<and>
        dict_get ?d key = Some (JStr []) \<and>
        extract_json cpython omitted = Inr json_omitted \<and>
        decoded_dict json_omitted = Some (dict_without ?d key) \<longrightarrow>
        parse_response cpython omitted empty_context = Inr result)" ..
  note r = all [THEN conjunct1]
  note h = all [THEN conjunct2, THEN conjunct1]
  note a = all [THEN conjunct2, THEN conjunct2, THEN conjunct2, THEN conjunct2, rule_format]
  have "\<not> dict_has (str ''documentUpdate'') result"
    unfolding h g by simp
  moreover have "parse_response cpython (str ''{\"conversationMessage\":\"ok\"}'') empty_context = Inr result"
    by (rule a [of "str ''documentUpdate''" _ "Some (JObj ?o)"]) (intro conjI disjI1 refl o w g)
  ultimately show ?thesis
    by (intro conjI exI [of _ result] e d r)
qed

text \<open>
  Claim C6. When the three strategies leave no \<open>dict\<close> that is true, the result has
  the one key \<open>conversationMessage\<close>, with the stripped response text, or with the
  fixed sentence when the stripped text is empty.
\<close>

theorem fallback_without_object:
  assumes "extract_json py response_text = Inr json_response"
    and "decoded_dict json_response = None"
  shows "parse_response py response_text ctx =
     Inr [(str ''conversationMessage'',
           JStr (if strip response_text = []
                 then str ''I encountered an error processing your request.''
                 else strip response_text))]"
  using parse_response_cases [OF assms(1)] assms(2)
  by (simp add: fallback_def)

theorem fallback_without_object_witness:
  "extract_json cpython (str ''not json at all'') = Inr None \<and> decoded_dict None = None \<and>
   parse_response cpython (str ''not json at all'') empty_context =
     Inr [(str ''conversationMessage'', JStr (str ''not json at all''))]"
proof -
  have e: "extract_json cpython (str ''not json at all'') = Inr None"
    by (simp add: decoder_eval)
  have d: "decoded_dict None = None" by simp
  from fallback_without_object [OF e d, of empty_context] e show ?thesis
    by (simp add: decoder_eval)
qed

section \<open>Properties of the formatter and of \<open>process\<close>\<close>

text \<open>
  The lines of the prompt fall into six sections, each led by its marker; joining them
  keeps the markers in their order.
\<close>

lemma join_Cons: "join sep (x # xs) = x @ (if xs = [] then [] else sep @ join sep xs)"
  by (cases xs) simp_all

lemma join_append:
  "xs \<noteq> [] \<Longrightarrow> ys \<noteq> [] \<Longrightarrow> join sep (xs @ ys) = join sep xs @ sep @ join sep ys"
  by (induction xs) (auto simp: join_Cons)

lemma getitem_Some: "getitem key (Some v) = Inr v"
  by (simp add: getitem_def)

lemma setdefault_Some: "\<exists>v. setdefault field d = Some v"
  by (cases field) (simp_all add: setdefault_def)

lemma format_sections:
  assumes "systemInstructions ctx = Some instructions" "documentContent ctx = Some document"
    "referredAddress ctx = Some address" "referredText ctx = Some referred"
    "conversationHistory ctx = Some history"
  shows "\<exists>t1 t2 t3 t5 t6. format_prompt_with_context prompt ctx =
     Inr (join [10]
       ((str ''=== SYSTEM INSTRUCTIONS ==='' # t1) @
        (str ''=== DOCUMENT CONTENT ==='' # t2) @
        (str ''=== REFERRED TEXT ==='' # t3) @
        (str ''=== CONVERSATION HISTORY ==='' #
           (if history \<noteq> [] then history_lines 0 history else [str ''(No previous conversation)'']) @ [[]]) @
        (str ''=== USER REQUEST ==='' # t5) @
        (str ''=== YOUR RESPONSE ==='' # t6)))"
  unfolding format_prompt_with_context_def assms getitem_Some
  apply (simp only: sum.case)
  apply (rule exI [where x = "[instructions, []]"])
  apply (rule exI [where x = "(if document \<noteq> []
              then [str ''Full Document ('' @ str_of_nat (length document) @ str '' chars):'', document]
              else [str ''(No document content)'']) @ [[]]"])
  apply (rule exI [where x = "(str ''Referred Address: '' @ address) # (if referred \<noteq> []
              then [str ''Referred Text ('' @ str_of_nat (length referred) @ str '' chars):'', referred]
              else [str ''(No referred text)'']) @ [[]]"])
  apply (rule exI [where x = "[prompt, []]"])
  apply (rule exI [where x = "[str ''Respond with valid JSON only (no markdown, no code blocks):'',
              str ''{\"conversationMessage\": \"...\", \"documentUpdate\": \"...\", \"updateRange\": \"...\"}'']"])
  apply simp
  done






lemma length_history_lines: "length (history_lines k h) = length h"
  by (induction h arbitrary: k) simp_all

lemma nth_history_lines: "i < length h \<Longrightarrow> history_lines k h ! i = history_line (k + i) (h ! i)"
  by (induction h arbitrary: k i) (auto simp: nth_Cons split: nat.splits)

lemma join_around:
  assumes "pre \<noteq> []" "post \<noteq> []"
  shows "join sep (pre @ x # post) = join sep pre @ sep @ x @ sep @ join sep post"
  using assms by (simp add: join_append join_Cons)

text \<open>
  Claim C8. In the formatted prompt every entry of the conversation history has its own
  line, between two line breaks: its number, its role, and its content, cut to the
  first 100 characters and followed by \<open>...\<close> when the content is longer than 100
  characters, and as it is, with nothing after it, otherwise.
\<close>

theorem history_entry_truncated:
  assumes "systemInstructions ctx = Some instructions" "documentContent ctx = Some document"
    "referredAddress ctx = Some address" "referredText ctx = Some referred"
    "conversationHistory ctx = Some history"
    and "i < length history"
    and "msg_role = (case role (history ! i) of Some r \<Rightarrow> r | None \<Rightarrow> str ''unknown'')"
    and "msg_content = (case content (history ! i) of Some c \<Rightarrow> c | None \<Rightarrow> [])"
  shows "\<exists>p before after. format_prompt_with_context prompt ctx = Inr p \<and>
     p = before @ [10] @
         (str ''['' @ str_of_nat (i + 1) @ str ''] '' @ msg_role @ str '': '' @
          (if length msg_content > 100 then take 100 msg_content @ str ''...'' else msg_content)) @
         [10] @ after"
proof -
  let ?H = "history_lines 0 history"
  let ?L = "history_line i (history ! i)"
  from assms(6) have ne: "history \<noteq> []" by auto
  from format_sections [OF assms(1-5), of prompt] ne obtain t1 t2 t3 t5 t6 where
    p: "format_prompt_with_context prompt ctx =
     Inr (join [10]
       ((str ''=== SYSTEM INSTRUCTIONS ==='' # t1) @
        (str ''=== DOCUMENT CONTENT ==='' # t2) @
        (str ''=== REFERRED TEXT ==='' # t3) @
        (str ''=== CONVERSATION HISTORY ==='' # ?H @ [[]]) @
        (str ''=== USER REQUEST ==='' # t5) @
        (str ''=== YOUR RESPONSE ==='' # t6)))"
    by auto
  have "?H = take i ?H @ ?H ! i # drop (Suc i) ?H"
    by (rule id_take_nth_drop) (simp add: length_history_lines assms(6))
  moreover have "?H ! i = ?L"
    using nth_history_lines [OF assms(6), of 0] by simp
  ultimately obtain hs1 hs2 where H: "?H = hs1 @ ?L # hs2"
    by metis
  let ?pre = "(str ''=== SYSTEM INSTRUCTIONS ==='' # t1) @
        (str ''=== DOCUMENT CONTENT ==='' # t2) @
        (str ''=== REFERRED TEXT ==='' # t3) @
        (str ''=== CONVERSATION HISTORY ==='' # hs1)"
  let ?post = "hs2 @ [[]] @
        (str ''=== USER REQUEST ==='' # t5) @
        (str ''=== YOUR RESPONSE ==='' # t6)"
  have "format_prompt_with_context prompt ctx = Inr (join [10] (?pre @ ?L # ?post))"
    unfolding p H by simp
  also have "join [10] (?pre @ ?L # ?post) = join [10] ?pre @ [10] @ ?L @ [10] @ join [10] ?post"
    by (rule join_around) simp_all
  finally have "format_prompt_with_context prompt ctx =
      Inr (join [10] ?pre @ [10] @ ?L @ [10] @ join [10] ?post)" .
  moreover have "?L = str ''['' @ str_of_nat (i + 1) @ str ''] '' @ msg_role @ str '': '' @
          (if length msg_content > 100 then take 100 msg_content @ str ''...'' else msg_content)"
    by (simp add: history_line_def assms(7,8))
  ultimately show ?thesis by metis
qed

theorem history_entry_truncated_witness:
  "(0::nat) < length [\<lparr>role = Some (str ''user''), content = Some (replicate 101 97)\<rparr>,
                      \<lparr>role = None, content = Some (str ''ok'')\<rparr>] \<and>
   (\<exists>p before after.
     format_prompt_with_context (str ''hi'')
       \<lparr>documentContent = Some [], referredText = Some [],
        referredAddress = Some (str ''0:0''),
        conversationHistory = Some [\<lparr>role = Some (str ''user''), content = Some (replicate 101 97)\<rparr>,
                                    \<lparr>role = None, content = Some (str ''ok'')\<rparr>],
        systemInstructions = Some (str ''Be brief.'')\<rparr> = Inr p \<and>
     p = before @ [10] @
         (str ''['' @ str_of_nat (0 + 1) @ str ''] '' @ str ''user'' @ str '': '' @
          take 100 (replicate 101 97) @ str ''...'') @ [10] @ after)"
proof -
  let ?h = "[\<lparr>role = Some (str ''user''), content = Some (replicate 101 97)\<rparr>,
             \<lparr>role = None, content = Some (str ''ok'')\<rparr>]"
  let ?c = "\<lparr>documentContent = Some [], referredText = Some [],
        referredAddress = Some (str ''0:0''), conversationHistory = Some ?h,
        systemInstructions = Some (str ''Be brief.'')\<rparr>"
  have f: "systemInstructions ?c = Some (str ''Be brief.'')" "documentContent ?c = Some []"
    "referredAddress ?c = Some (str ''0:0'')" "referredText ?c = Some []"
    "conversationHistory ?c = Some ?h"
    by simp_all
  have i: "0 < length ?h" by simp
  have r: "str ''user'' = (case role (?h ! 0) of Some r \<Rightarrow> r | None \<Rightarrow> str ''unknown'')"
    by simp
  have c: "replicate 101 97 = (case content (?h ! 0) of Some c \<Rightarrow> c | None \<Rightarrow> [])"
    by simp
  from history_entry_truncated [OF f i r c, of "str ''hi''"] i show ?thesis
    by simp
qed

section \<open>Properties of \<open>cleanup\<close>\<close>

text \<open>
  Claim C9, as stated, fails: when \<open>disconnect\<close> raises in the first call and returns
  in the second, the first call leaves the flag set and the second clears it.
\<close>

theorem cleanup_retry_counterexample:
  "cleanup (Some (SDKError (str ''closed''))) \<lparr>session_id = str ''global-session'', system_instructions = [], connected = True\<rparr>
     = Inr \<lparr>session_id = str ''global-session'', system_instructions = [], connected = True\<rparr> \<and>
   cleanup None \<lparr>session_id = str ''global-session'', system_instructions = [], connected = True\<rparr>
     = Inr \<lparr>session_id = str ''global-session'', system_instructions = [], connected = False\<rparr>"
  by (simp add: cleanup_def)

text \<open>
  Claim C9, amended. Two calls of \<open>cleanup\<close> in a row raise no exception. On an agent
  that is not connected both change nothing. When \<open>disconnect\<close> returns in the first
  call, that call clears the flag and the second call changes nothing. When
  \<open>disconnect\<close> raises in the first call, that call leaves the agent as it was, still
  marked connected, and the second call tries again; it leaves the flag as it found it
  when \<open>disconnect\<close> raises again.
\<close>

theorem cleanup_twice:
  "\<exists>self1 self2.
     cleanup disconnect1 self = Inr self1 \<and> cleanup disconnect2 self1 = Inr self2 \<and>
     (\<not> connected self \<longrightarrow> self1 = self \<and> self2 = self) \<and>
     (connected self \<and> disconnect1 = None \<longrightarrow> \<not> connected self1 \<and> self2 = self1) \<and>
     (connected self \<and> disconnect1 \<noteq> None \<longrightarrow> self1 = self) \<and>
     (disconnect2 \<noteq> None \<longrightarrow> connected self2 = connected self1)"
  by (cases disconnect1; cases disconnect2) (auto simp: cleanup_def)

theorem cleanup_twice_witness:
  "\<exists>self1 self2.
     cleanup None \<lparr>session_id = [], system_instructions = [], connected = True\<rparr> = Inr self1 \<and>
     cleanup None self1 = Inr self2 \<and> \<not> connected self1 \<and> self2 = self1"
  using cleanup_twice [of None "\<lparr>session_id = [], system_instructions = [], connected = True\<rparr>" None]
  by simp

text \<open>
  Claim C10. \<open>process\<close> writes into the object that the caller passed: whether it
  returns or raises, afterwards each of the five keys that was missing is there with
  its default (\<open>''\<close>, \<open>''\<close>, \<open>'0:0'\<close>, \<open>[]\<close>, the instructions the agent loaded), each
  key that was there has the value it had, and no other object of the store has changed.
\<close>

theorem process_sets_defaults:
  assumes "r < length \<sigma>"
    and "process py sdk self \<sigma> prompt (Some r) on_chunk = (self', \<sigma>', outcome)"
  shows "\<sigma>' = \<sigma>[r := \<sigma>' ! r] \<and>
     documentContent (\<sigma>' ! r) = Some (case documentContent (\<sigma> ! r) of Some v \<Rightarrow> v | None \<Rightarrow> []) \<and>
     referredText (\<sigma>' ! r) = Some (case referredText (\<sigma> ! r) of Some v \<Rightarrow> v | None \<Rightarrow> []) \<and>
     referredAddress (\<sigma>' ! r) = Some (case referredAddress (\<sigma> ! r) of Some v \<Rightarrow> v | None \<Rightarrow> str ''0:0'') \<and>
     conversationHistory (\<sigma>' ! r) = Some (case conversationHistory (\<sigma> ! r) of Some v \<Rightarrow> v | None \<Rightarrow> []) \<and>
     systemInstructions (\<sigma>' ! r) =
       Some (case systemInstructions (\<sigma> ! r) of Some v \<Rightarrow> v | None \<Rightarrow> system_instructions self)"
proof -
  from assms(2) have "\<sigma>' = \<sigma>[r := ensure_defaults self (\<sigma> ! r)]"
    by (auto simp: process_def process_context_def split: sum.splits option.splits if_splits)
  with assms(1) show ?thesis
    by (simp add: ensure_defaults_def setdefault_def split: option.splits)
qed

theorem process_sets_defaults_witness:
  "(0::nat) < length [empty_context\<lparr>referredText := Some (str ''abc'')\<rparr>] \<and>
   process cpython \<lparr>connect_raises = None, query_raises = (\<lambda>p. None),
            received = [AssistantMessage [TextBlock (str ''{\"conversationMessage\":\"ok\"}'')]],
            receive_raises = None\<rparr>
     \<lparr>session_id = [], system_instructions = str ''Be brief.'', connected = False\<rparr>
     [empty_context\<lparr>referredText := Some (str ''abc'')\<rparr>] (str ''hi'') (Some 0) None =
    (\<lparr>session_id = [], system_instructions = str ''Be brief.'', connected = True\<rparr>,
     [\<lparr>documentContent = Some [], referredText = Some (str ''abc''),
       referredAddress = Some (str ''0:0''), conversationHistory = Some [],
       systemInstructions = Some (str ''Be brief.'')\<rparr>],
     Inr [(str ''conversationMessage'', JStr (str ''ok''))])"
proof -
  let ?\<sigma> = "[empty_context\<lparr>referredText := Some (str ''abc'')\<rparr>]"
  let ?sdk = "\<lparr>connect_raises = None, query_raises = (\<lambda>p. None),
            received = [AssistantMessage [TextBlock (str ''{\"conversationMessage\":\"ok\"}'')]],
            receive_raises = None\<rparr>"
  let ?self = "\<lparr>session_id = [], system_instructions = str ''Be brief.'', connected = False\<rparr>"
  have r: "0 < length ?\<sigma>" by simp
  obtain self' \<sigma>' outcome where
    p: "process cpython ?sdk ?self ?\<sigma> (str ''hi'') (Some 0) None = (self', \<sigma>', outcome)"
    by (metis prod_cases3)
  have s: "self' = \<lparr>session_id = [], system_instructions = str ''Be brief.'', connected = True\<rparr>"
    and o: "outcome = Inr [(str ''conversationMessage'', JStr (str ''ok''))]"
    using p
    by (simp_all add: process_def process_context_def format_prompt_with_context_def
        ensure_defaults_def setdefault_def empty_context_def getitem_def decoder_eval)
  from process_sets_defaults [OF r p] have "\<sigma>' =
     [\<lparr>documentContent = Some [], referredText = Some (str ''abc''),
       referredAddress = Some (str ''0:0''), conversationHistory = Some [],
       systemInstructions = Some (str ''Be brief.'')\<rparr>]"
    by (cases \<sigma>'; cases "hd \<sigma>'") (auto simp: empty_context_def)
  with p s o r show ?thesis by simp
qed

section \<open>Decoding what \<open>json.dumps\<close> wrote\<close>

text \<open>\<open>_decode_uXXXX\<close> reads back the four digits that \<open>hex4\<close> writes.\<close>

lemma hex_value_hex_digit: "d < 16 \<Longrightarrow> hex_value (hex_digit d) = Some d"
  by (simp add: hex_value_def hex_digit_def ord_def)

lemma hex_digits_value:
  assumes "n < 65536"
  shows "((n div 4096 mod 16 * 16 + n div 256 mod 16) * 16 + n div 16 mod 16) * 16 + n mod 16 = (n::nat)"
proof -
  define a where "a = n div 16"
  define b where "b = a div 16"
  define c where "c = b div 16"
  have n: "n = a * 16 + n mod 16" by (simp add: a_def)
  have a: "a = b * 16 + a mod 16" by (simp add: b_def)
  have b: "b = c * 16 + b mod 16" by (simp add: c_def)
  have "c < 16" using assms by (simp add: a_def b_def c_def div_mult2_eq [symmetric])
  then have c: "c mod 16 = c" by simp
  have "n div 256 = b" "n div 4096 = c"
    by (simp_all add: a_def b_def c_def div_mult2_eq [symmetric])
  moreover have "n div 16 = a" by (simp add: a_def)
  ultimately show ?thesis
    using n a b c by simp
qed

lemma decode_hex4:
  assumes "d3 < 16" "d2 < 16" "d1 < 16" "d0 < 16"
  shows "decode_uXXXX (hex_digit d3 # hex_digit d2 # hex_digit d1 # hex_digit d0 # tail) =
    Some (((d3 * 16 + d2) * 16 + d1) * 16 + d0)"
  using assms by (simp add: hex_value_hex_digit)

lemma decode_hex4_value:
  assumes "n < 65536"
  shows "decode_uXXXX (hex4 n @ tail) = Some n"
proof -
  have "decode_uXXXX (hex_digit (n div 4096 mod 16) # hex_digit (n div 256 mod 16) #
           hex_digit (n div 16 mod 16) # hex_digit (n mod 16) # tail) =
        Some (((n div 4096 mod 16 * 16 + n div 256 mod 16) * 16 + n div 16 mod 16) * 16 + n mod 16)"
    by (rule decode_hex4) simp_all
  then show ?thesis
    by (simp only: hex_digits_value [OF assms] hex4_def append_Cons append_Nil)
qed

lemma length_hex4: "length (hex4 n) = 4"
  by (simp add: hex4_def)

lemma u_escape_Cons: "u_escape n @ tail = ord CHR 0x5C # ord CHR ''u'' # (hex4 n @ tail)"
  by (simp add: u_escape_def)

text \<open>\<open>scanstring\<close> reads back each character from its escape.\<close>

lemma scanstring_plain:
  assumes "32 \<le> c" "c \<noteq> ord CHR ''\"''" "c \<noteq> ord CHR 0x5C"
  shows "scanstring (c # tail) = map_option (\<lambda>(x, r). (c # x, r)) (scanstring tail)"
  using assms by simp

lemma scanstring_short_escape:
  assumes "BACKSLASH e = Some c" 
  shows "scanstring (ord CHR 0x5C # e # tail) = map_option (\<lambda>(x, r). (c # x, r)) (scanstring tail)"
proof -
  from assms have "e \<noteq> ord CHR ''u''"
    by (auto simp: BACKSLASH_def ord_def split: if_splits)
  with assms show ?thesis by (simp add: ord_def)
qed

lemma scanstring_u_escape:
  assumes "n < 65536" "\<not> (0xd800 \<le> n \<and> n \<le> 0xdbff)"
  shows "scanstring (u_escape n @ tail) = map_option (\<lambda>(x, r). (n # x, r)) (scanstring tail)"
  using assms
  by (auto simp: u_escape_Cons decode_hex4_value length_hex4 Let_def ord_def)

lemma surrogates_join:
  assumes "0x10000 \<le> c" "c < 0x110000"
  shows "0x10000 + ((0xd800 + (c - 0x10000) div 1024 mod 1024 - 0xd800) * 1024 +
                    (0xdc00 + (c - 0x10000) mod 1024 - 0xdc00)) = (c::nat)"
proof -
  define n where "n = c - 0x10000"
  from assms have "n < 1024 * 1024" by (simp add: n_def)
  then have "n div 1024 < 1024" by (simp add: less_mult_imp_div_less)
  then have "n div 1024 mod 1024 = n div 1024" by simp
  moreover have "n div 1024 * 1024 + n mod 1024 = n" by simp
  moreover from assms have "c = 0x10000 + n" by (simp add: n_def)
  ultimately show ?thesis unfolding n_def [symmetric] by simp
qed

lemma scanstring_surrogate_pair:
  assumes "0x10000 \<le> c" "c < 0x110000"
  shows "scanstring (u_escape (0xd800 + (c - 0x10000) div 1024 mod 1024) @
                     u_escape (0xdc00 + (c - 0x10000) mod 1024) @ tail) =
         map_option (\<lambda>(x, r). (c # x, r)) (scanstring tail)"
proof -
  let ?hi = "0xd800 + (c - 0x10000) div 1024 mod 1024"
  let ?lo = "0xdc00 + (c - 0x10000) mod 1024"
  have hi: "?hi < 65536" "0xd800 \<le> ?hi" "?hi \<le> 0xdbff"
    using mod_less_divisor [of 1024 "(c - 0x10000) div 1024"] by simp_all
  have lo: "?lo < 65536" "0xdc00 \<le> ?lo" "?lo \<le> 0xdfff"
    using mod_less_divisor [of 1024 "c - 0x10000"] by simp_all
  define hi where "hi = ?hi"
  define lo where "lo = ?lo"
  note hi' = hi [folded hi_def] and lo' = lo [folded lo_def]
  have "scanstring (u_escape hi @ u_escape lo @ tail) =
      map_option (\<lambda>(x, r). ((0x10000 + ((hi - 0xd800) * 1024 + (lo - 0xdc00))) # x, r)) (scanstring tail)"
    using hi' lo'
    by (simp add: u_escape_Cons decode_hex4_value length_hex4 Let_def startswith_def ord_def)
  then show ?thesis
    unfolding hi_def lo_def by (simp only: surrogates_join [OF assms])
qed

lemma scanstring_encode_char:
  assumes "ensure_ascii \<longrightarrow> scalar_value c"
  shows "scanstring (encode_char ensure_ascii c @ tail) =
     map_option (\<lambda>(x, r). (c # x, r)) (scanstring tail)"
proof (cases "ESCAPE_DCT c")
  case (Some e)
  then consider (short) e' where "e = [ord CHR 0x5C, e']" "BACKSLASH e' = Some c"
    | (control) "e = u_escape c" "c < 32"
    by (auto simp: ESCAPE_DCT_def BACKSLASH_def ord_def split: if_splits)
  then show ?thesis
  proof cases
    case short
    with Some show ?thesis
      by (simp add: encode_char_def scanstring_short_escape del: scanstring.simps)
  next
    case control
    with Some show ?thesis
      by (simp add: encode_char_def scanstring_u_escape del: scanstring.simps)
  qed
next
  case None
  then have c: "32 \<le> c" "c \<noteq> ord CHR ''\"''" "c \<noteq> ord CHR 0x5C"
    by (auto simp: ESCAPE_DCT_def split: if_splits)
  show ?thesis
  proof (cases "ensure_ascii \<and> \<not> (32 \<le> c \<and> c \<le> 126)")
    case False
    with None c show ?thesis
      by (auto simp: encode_char_def scanstring_plain simp del: scanstring.simps)
  next
    case True
    with assms have s: "c < 0x110000" "\<not> (0xd800 \<le> c \<and> c \<le> 0xdfff)"
      by (simp_all add: scalar_value_def)
    show ?thesis
    proof (cases "c < 0x10000")
      case True
      with s have "scanstring (u_escape c @ tail) = map_option (\<lambda>(x, r). (c # x, r)) (scanstring tail)"
        by (intro scanstring_u_escape) auto
      with None \<open>ensure_ascii \<and> \<not> (32 \<le> c \<and> c \<le> 126)\<close> True show ?thesis
        by (simp add: encode_char_def del: scanstring.simps)
    next
      case False
      with s have "scanstring (u_escape (0xd800 + (c - 0x10000) div 1024 mod 1024) @
                     u_escape (0xdc00 + (c - 0x10000) mod 1024) @ tail) =
         map_option (\<lambda>(x, r). (c # x, r)) (scanstring tail)"
        by (intro scanstring_surrogate_pair) auto
      with None \<open>ensure_ascii \<and> \<not> (32 \<le> c \<and> c \<le> 126)\<close> False show ?thesis
        by (simp add: encode_char_def del: scanstring.simps)
    qed
  qed
qed

lemma scanstring_encoded:
  assumes "ensure_ascii \<longrightarrow> (\<forall>c \<in> set s. scalar_value c)"
  shows "scanstring (concat (map (encode_char ensure_ascii) s) @ ord CHR ''\"'' # rest) = Some (s, rest)"
  using assms
proof (induction s)
  case Nil
  show ?case by simp
next
  case (Cons c s)
  then show ?case
    by (simp add: scanstring_encode_char del: scanstring.simps)
qed

lemma scanstring_body:
  assumes "well_formed ea s"
  shows "scanstring (concat (map (encode_char ea) s) @ 34 # rest) = Some (s, rest)"
  using scanstring_encoded [of ea s rest] assms by (simp add: well_formed_def ord_def)

lemma skip_ws_simps:
  "skip_ws (34 # s) = 34 # s" "skip_ws (58 # s) = 58 # s" "skip_ws (44 # s) = 44 # s"
  "skip_ws (125 # s) = 125 # s" "skip_ws (32 # s) = skip_ws s" "skip_ws [] = []"
  by (simp_all add: skip_ws_def json_ws_def ord_def)

lemma scan_once_string:
  assumes "well_formed ea s"
  shows "scan_once py (Suc n) depth (34 # concat (map (encode_char ea) s) @ 34 # rest) = Inr (JStr s, rest)"
  by (simp add: scan_once_cons scanstring_body [OF assms] ord_def)

lemma JSONObject_item:
  assumes "well_formed ea k" "well_formed ea v"
  shows "JSONObject py (Suc (Suc n)) depth pairs
           (concat (map (encode_char ea) k) @ 34 # 58 # 32 # 34 # concat (map (encode_char ea) v) @
            34 # 44 # 32 # 34 # rest) =
         JSONObject py (Suc n) depth (pairs @ [(k, JStr v)]) rest"
  by (simp add: JSONObject.simps scanstring_body [OF assms(1)] scan_once_string [OF assms(2)]
      skip_ws_simps ord_def)

lemma JSONObject_last_item:
  assumes "well_formed ea k" "well_formed ea v"
  shows "JSONObject py (Suc (Suc n)) depth pairs
           (concat (map (encode_char ea) k) @ 34 # 58 # 32 # 34 # concat (map (encode_char ea) v) @
            34 # 125 # rest) =
         Inr (JObj (dict_of_pairs (pairs @ [(k, JStr v)])), rest)"
  by (simp add: JSONObject.simps scanstring_body [OF assms(1)] scan_once_string [OF assms(2)]
      skip_ws_simps ord_def)

lemma json_dumps_three:
  "json_dumps ea [(k1, v1), (k2, v2), (k3, v3)] =
     123 # (34 # concat (map (encode_char ea) k1) @ 34 # 58 # 32 # 34 # concat (map (encode_char ea) v1) @
     34 # 44 # 32 # 34 # concat (map (encode_char ea) k2) @ 34 # 58 # 32 # 34 # concat (map (encode_char ea) v2) @
     34 # 44 # 32 # 34 # concat (map (encode_char ea) k3) @ 34 # 58 # 32 # 34 # concat (map (encode_char ea) v3) @
     [34]) @ [125]"
  by (simp add: json_dumps_def encode_basestring_def str_def ord_def)

lemma strip_id:
  assumes "\<not> isspace c" "\<not> isspace d"
  shows "strip (c # mid @ [d]) = c # mid @ [d]"
  using assms by (simp add: strip_def)

lemma dict_of_pairs_distinct3:
  assumes "k1 \<noteq> k2" "k1 \<noteq> k3" "k2 \<noteq> k3"
  shows "dict_of_pairs [(k1, v1), (k2, v2), (k3, v3)] = [(k1, v1), (k2, v2), (k3, v3)]"
  using assms by (simp add: dict_of_pairs_def)

lemma json_loads_dumps_three:
  assumes "well_formed ea k1" "well_formed ea v1" "well_formed ea k2" "well_formed ea v2"
    "well_formed ea k3" "well_formed ea v3"
    and "0 < recursion_limit py"
  shows "json_loads py (json_dumps ea [(k1, v1), (k2, v2), (k3, v3)]) =
     Inr (JObj (dict_of_pairs [(k1, JStr v1), (k2, JStr v2), (k3, JStr v3)]))"
proof -
  let ?T = "json_dumps ea [(k1, v1), (k2, v2), (k3, v3)]"
  have "5 \<le> 2 * length ?T + 2"
    by (simp add: json_dumps_three)
  then have "2 * length ?T + 2 = Suc (Suc (Suc (Suc (Suc (2 * length ?T + 2 - 5)))))"
    by arith
  then obtain n where n: "2 * length ?T + 2 = Suc (Suc (Suc (Suc (Suc n))))"
    by blast
  from assms(7) obtain d where d: "recursion_limit py = Suc d"
    by (cases "recursion_limit py") auto
  have "scan_once py (Suc (Suc (Suc (Suc (Suc n))))) (Suc d) ?T =
      Inr (JObj (dict_of_pairs [(k1, JStr v1), (k2, JStr v2), (k3, JStr v3)]), [])"
    unfolding json_dumps_three
    by (simp add: scan_once_cons skip_ws_simps ord_def
        JSONObject_item [OF assms(1,2)] JSONObject_item [OF assms(3,4)]
        JSONObject_last_item [OF assms(5,6)])
  moreover have "skip_ws ?T = ?T" "\<not> startswith ?T [0xfeff]"
    by (simp_all add: json_dumps_three skip_ws_def json_ws_def ord_def startswith_def)
  ultimately show ?thesis
    unfolding json_loads_def n [symmetric] d by (simp add: skip_ws_simps n)
qed

lemma well_formed_ascii:
  "well_formed ea (str ''conversationMessage'')" "well_formed ea (str ''documentUpdate'')"
  "well_formed ea (str ''updateRange'')"
  by (simp_all add: well_formed_def scalar_value_def str_def ord_def)

lemma json_dumps_strip:
  "strip (json_dumps ea [(k1, v1), (k2, v2), (k3, v3)]) = json_dumps ea [(k1, v1), (k2, v2), (k3, v3)]"
  unfolding json_dumps_three by (rule strip_id) (simp_all add: isspace_def)

lemma project_three:
  assumes "u \<noteq> []" "r \<noteq> []"
  shows "project [(str ''conversationMessage'', JStr m), (str ''documentUpdate'', JStr u),
                  (str ''updateRange'', JStr r)] =
         [(str ''conversationMessage'', JStr m), (str ''documentUpdate'', JStr u),
          (str ''updateRange'', JStr r)]"
  using assms keys_distinct keys_distinct [symmetric]
  by (simp add: project_def truthy_item_def dict_get_def)

text \<open>
  Claim C5. For all strings \<open>m\<close>, \<open>u\<close> and \<open>r\<close>, with \<open>u\<close> and \<open>r\<close> not empty,
  decoding the serialization of the object with \<open>conversationMessage\<close> \<open>m\<close>,
  \<open>documentUpdate\<close> \<open>u\<close> and \<open>updateRange\<close> \<open>r\<close> gives the result with these three
  keys and these three values. With \<open>ensure_ascii\<close> off this holds for every string;
  with \<open>ensure_ascii\<close> on, for strings of Unicode scalar values.
\<close>

theorem decode_serialized_round_trip:
  assumes "u \<noteq> []" and "r \<noteq> []"
    and "ensure_ascii \<longrightarrow> (\<forall>c \<in> set (m @ u @ r). scalar_value c)"
    and "0 < recursion_limit py"
  shows "parse_response py
           (json_dumps ensure_ascii
              [(str ''conversationMessage'', m), (str ''documentUpdate'', u), (str ''updateRange'', r)])
           ctx =
         Inr [(str ''conversationMessage'', JStr m), (str ''documentUpdate'', JStr u),
              (str ''updateRange'', JStr r)]"
proof -
  let ?T = "json_dumps ensure_ascii
              [(str ''conversationMessage'', m), (str ''documentUpdate'', u), (str ''updateRange'', r)]"
  let ?d = "[(str ''conversationMessage'', JStr m), (str ''documentUpdate'', JStr u),
             (str ''updateRange'', JStr r)]"
  from assms(3) have wf: "well_formed ensure_ascii m" "well_formed ensure_ascii u"
    "well_formed ensure_ascii r"
    by (auto simp: well_formed_def)
  have "json_loads py ?T = Inr (JObj (dict_of_pairs ?d))"
    by (rule json_loads_dumps_three) (simp_all add: wf well_formed_ascii assms(4))
  also have "dict_of_pairs ?d = ?d"
    by (rule dict_of_pairs_distinct3) (simp_all add: keys_distinct)
  finally have "json_loads py (strip ?T) = Inr (JObj ?d)"
    by (simp only: json_dumps_strip)
  then have "extract_json py ?T = Inr (Some (JObj ?d))"
    by (rule extract_json_first) simp
  from parse_response_cases [OF this] show ?thesis
    by (simp add: project_three [OF assms(1,2)])
qed

theorem decode_serialized_round_trip_witness:
  "str ''new text'' \<noteq> [] \<and> str ''0:5'' \<noteq> [] \<and>
   json_dumps True
     [(str ''conversationMessage'', str ''hi''), (str ''documentUpdate'', str ''new text''),
      (str ''updateRange'', str ''0:5'')] =
     str ''{\"conversationMessage\": \"hi\", \"documentUpdate\": \"new text\", \"updateRange\": \"0:5\"}'' \<and>
   parse_response cpython
     (str ''{\"conversationMessage\": \"hi\", \"documentUpdate\": \"new text\", \"updateRange\": \"0:5\"}'')
     empty_context =
     Inr [(str ''conversationMessage'', JStr (str ''hi'')), (str ''documentUpdate'', JStr (str ''new text'')),
          (str ''updateRange'', JStr (str ''0:5''))]"
proof -
  have u: "str ''new text'' \<noteq> []" and r: "str ''0:5'' \<noteq> []"
    by (simp_all add: str_def)
  have s: "True \<longrightarrow> (\<forall>c \<in> set (str ''hi'' @ str ''new text'' @ str ''0:5''). scalar_value c)"
    by (simp add: str_def ord_def scalar_value_def)
  have d: "json_dumps True
     [(str ''conversationMessage'', str ''hi''), (str ''documentUpdate'', str ''new text''),
      (str ''updateRange'', str ''0:5'')] =
     str ''{\"conversationMessage\": \"hi\", \"documentUpdate\": \"new text\", \"updateRange\": \"0:5\"}''"
    by (simp add: json_dumps_def encode_basestring_def encode_char_def ESCAPE_DCT_def str_def ord_def)
  have l: "0 < recursion_limit cpython"
    by (simp add: cpython_def)
  from decode_serialized_round_trip [OF u r s l, of empty_context] u r d show ?thesis
    by simp
qed

end
